theory Spec2Isabelle
  imports Complex_Main
begin

section \<open>Values, errors and the random source\<close>

text \<open>
  The two notebooks compute with NumPy arrays. An integer array is an \<open>int list\<close>.
  A float64 value is a \<open>real option\<close>: \<open>Some x\<close> is the finite number \<open>x\<close> (rounding is
  not modelled), \<open>None\<close> is a non-finite result (\<open>nan\<close>, \<open>inf\<close>), which NumPy returns,
  with a RuntimeWarning and without raising, when a float is divided by zero.
\<close>

type_synonym npfloat = "real option"

datatype error = IndexError | ValueError | TypeError string | NameError string

text \<open>
  The state of the global random generator is the sequence of uniform variates it has
  yet to produce. Drawing \<open>n\<close> of them returns the first \<open>n\<close> and the advanced state.
\<close>

type_synonym rng = "nat \<Rightarrow> real"

definition draw :: "nat \<Rightarrow> rng \<Rightarrow> real list \<times> rng" where
  "draw n g = (map g [0..<n], \<lambda>k. g (n + k))"

section \<open>The library calls the cells make\<close>

text \<open>\<open>bernoulli(p).rvs(size=n)\<close>: \<open>n\<close> draws, each 1 with probability \<open>p\<close> and 0 otherwise.\<close>

definition bernoulli_rvs :: "real \<Rightarrow> nat \<Rightarrow> rng \<Rightarrow> int list \<times> rng" where
  "bernoulli_rvs p n g =
     (let (us, g') = draw n g in (map (\<lambda>u. if u < p then 1 else 0) us, g'))"

text \<open>\<open>np.random.uniform(low, high, size)\<close>: \<open>low + (high - low) * u\<close> for each variate.\<close>

definition np_random_uniform :: "real \<Rightarrow> real \<Rightarrow> nat \<Rightarrow> rng \<Rightarrow> npfloat list \<times> rng" where
  "np_random_uniform low high n g =
     (let (us, g') = draw n g in (map (\<lambda>u. Some (low + (high - low) * u)) us, g'))"

text \<open>\<open>np.zeros(n)\<close> and \<open>np.zeros((m, n), dtype=int)\<close>.\<close>

definition np_zeros :: "nat \<Rightarrow> npfloat list" where
  "np_zeros n = replicate n (Some 0)"

definition np_zeros_int2 :: "nat \<Rightarrow> nat \<Rightarrow> int list list" where
  "np_zeros_int2 m n = replicate m (replicate n 0)"

text \<open>
  \<open>np.arange(start, stop, step)\<close> for a positive step, as in every call of the notebooks:
  the values \<open>start + k * step\<close> below \<open>stop\<close>.
\<close>

definition np_arange :: "int \<Rightarrow> int \<Rightarrow> int \<Rightarrow> int list" where
  "np_arange start stop step =
     map (\<lambda>k. start + int k * step) [0..<nat (- ((start - stop) div step))]"

text \<open>An integer array read as floats, as NumPy does before it averages one.\<close>

definition as_float :: "int list \<Rightarrow> npfloat list" where
  "as_float xs = map (\<lambda>x. Some (real_of_int x)) xs"

fun fadd :: "npfloat \<Rightarrow> npfloat \<Rightarrow> npfloat" where
  "fadd (Some x) (Some y) = Some (x + y)"
| "fadd _ _ = None"

text \<open>\<open>np.sum\<close> of a float array; the sum of an empty array is \<open>0.0\<close>.\<close>

definition np_sum :: "npfloat list \<Rightarrow> npfloat" where
  "np_sum xs = foldl fadd (Some 0) xs"

text \<open>A float divided by an integer count: not finite when the count is zero.\<close>

definition true_divide :: "npfloat \<Rightarrow> int \<Rightarrow> npfloat" where
  "true_divide x n =
     (case x of None \<Rightarrow> None
      | Some v \<Rightarrow> if n = 0 then None else Some (v / real_of_int n))"

text \<open>
  \<open>np.mean(a)\<close> of a float array: the sum of the elements over their number, which is
  not a number for an empty array.
\<close>

definition np_mean :: "npfloat list \<Rightarrow> npfloat" where
  "np_mean xs = true_divide (np_sum xs) (int (length xs))"

text \<open>\<open>np.mean(a, axis=1)\<close> of an integer matrix: the mean of each row.\<close>

definition np_mean_axis1 :: "int list list \<Rightarrow> npfloat list" where
  "np_mean_axis1 rows = map (\<lambda>row. np_mean (as_float row)) rows"

text \<open>
  Python indexing and slicing. An index \<open>i\<close> into \<open>len\<close> elements stands for the position
  \<open>i\<close> when it is not negative and for \<open>len + i\<close> when it is; outside of
  \<open>-len, ..., len - 1\<close> the access raises IndexError.
\<close>

definition position :: "nat \<Rightarrow> int \<Rightarrow> nat option" where
  "position len i =
     (if 0 \<le> i \<and> i < int len then Some (nat i)
      else if i < 0 \<and> - int len \<le> i then Some (nat (int len + i))
      else None)"

definition setitem :: "'a list \<Rightarrow> int \<Rightarrow> 'a \<Rightarrow> error + 'a list" where
  "setitem xs i v =
     (case position (length xs) i of
        None \<Rightarrow> Inl IndexError
      | Some j \<Rightarrow> Inr (xs[j := v]))"

definition slice_to :: "'a list \<Rightarrow> int \<Rightarrow> 'a list" where
  "slice_to xs i =
     (if i < 0 then take (nat (int (length xs) + i)) xs else take (nat i) xs)"

definition slice_from :: "'a list \<Rightarrow> int \<Rightarrow> 'a list" where
  "slice_from xs i =
     (if i < 0 then drop (nat (int (length xs) + i)) xs else drop (nat i) xs)"

definition getitem :: "'a list \<Rightarrow> int \<Rightarrow> error + 'a" where
  "getitem xs i =
     (case position (length xs) i of
        None \<Rightarrow> Inl IndexError
      | Some j \<Rightarrow> Inr (xs ! j))"

text \<open>
  \<open>start[i, :] = v\<close> on an integer matrix: row \<open>i\<close> is overwritten by \<open>v\<close>, which must have
  the length of the row or length one (it is then repeated along the row).
\<close>

definition setrow :: "int list list \<Rightarrow> int \<Rightarrow> int list \<Rightarrow> error + int list list" where
  "setrow rows i v =
     (case position (length rows) i of
        None \<Rightarrow> Inl IndexError
      | Some j \<Rightarrow>
          (let w = length (rows ! j)
           in if length v = w then Inr (rows[j := v])
              else if length v = 1 then Inr (rows[j := replicate w (hd v)])
              else Inl ValueError))"

text \<open>\<open>np.linspace(start, stop, num)\<close>: \<open>num\<close> evenly spaced values, both ends included.\<close>

definition np_linspace :: "real \<Rightarrow> real \<Rightarrow> nat \<Rightarrow> npfloat list" where
  "np_linspace start stop num =
     map (\<lambda>k. Some (start + real k * ((stop - start) / real (num - 1)))) [0..<num]"

section \<open>The law of large numbers\<close>

text \<open>
  \<^verbatim>\<open>
  def throw_a_coin(n):
      brv = bernoulli(0.5)
      return brv.rvs(size=n)
  \<close>
\<close>

definition throw_a_coin :: "nat \<Rightarrow> rng \<Rightarrow> int list \<times> rng" where
  "throw_a_coin n g = bernoulli_rvs (1 / 2) n g"

text \<open>
  \<^verbatim>\<open>
  random_flips = throw_a_coin(10000)
  running_means = np.zeros(10000)
  sequence_lengths = np.arange(1,10001,1)
  for i in sequence_lengths:
      running_means[i-1] = np.mean(random_flips[:i])
  \<close>
\<close>

fun running_means_loop :: "int list \<Rightarrow> int list \<Rightarrow> npfloat list \<Rightarrow> error + npfloat list" where
  "running_means_loop flips [] rm = Inr rm"
| "running_means_loop flips (i # rest) rm =
     (case setitem rm (i - 1) (np_mean (as_float (slice_to flips i))) of
        Inl e \<Rightarrow> Inl e
      | Inr rm' \<Rightarrow> running_means_loop flips rest rm')"

record lln_vars =
  random_flips :: "int list"
  running_means :: "npfloat list"
  sequence_lengths :: "int list"

definition lln_cell :: "rng \<Rightarrow> (error + lln_vars) \<times> rng" where
  "lln_cell g =
     (let (flips, g') = throw_a_coin 10000 g;
          rm0 = np_zeros 10000;
          lens = np_arange 1 10001 1
      in (case running_means_loop flips lens rm0 of
            Inl e \<Rightarrow> Inl e
          | Inr rm \<Rightarrow> Inr \<lparr>random_flips = flips, running_means = rm, sequence_lengths = lens\<rparr>,
          g'))"


section \<open>Samples from a population of coin flips\<close>

text \<open>
  \<^verbatim>\<open>
  def make_throws(number_of_samples, sample_size):
      start=np.zeros((number_of_samples, sample_size), dtype=int)
      for i in range(number_of_samples):
          start[i,:] = throw_a_coin(sample_size)
      return np.mean(start, axis=1)
  \<close>
  \<open>np.zeros\<close> raises ValueError for a negative dimension, so \<open>throw_a_coin\<close> is only
  reached with a size that is not negative.
\<close>

fun make_throws_loop ::
  "nat \<Rightarrow> int list \<Rightarrow> int list list \<Rightarrow> rng \<Rightarrow> (error + int list list) \<times> rng" where
  "make_throws_loop sample_size [] start g = (Inr start, g)"
| "make_throws_loop sample_size (i # rest) start g =
     (let (flips, g') = throw_a_coin sample_size g
      in case setrow start i flips of
           Inl e \<Rightarrow> (Inl e, g')
         | Inr start' \<Rightarrow> make_throws_loop sample_size rest start' g')"

definition make_throws :: "int \<Rightarrow> int \<Rightarrow> rng \<Rightarrow> (error + npfloat list) \<times> rng" where
  "make_throws number_of_samples sample_size g =
     (if number_of_samples < 0 \<or> sample_size < 0 then (Inl ValueError, g)
      else
        (let start = np_zeros_int2 (nat number_of_samples) (nat sample_size);
             (r, g') = make_throws_loop (nat sample_size)
                          (map int [0..<nat number_of_samples]) start g
         in (case r of Inl e \<Rightarrow> Inl e | Inr start' \<Rightarrow> Inr (np_mean_axis1 start'), g')))"

text \<open>
  \<^verbatim>\<open>
  sample_sizes=np.arange(1,1001,10)
  sample_means = [make_throws(number_of_samples=200, sample_size=i) for i in sample_sizes]
  \<close>
  The comprehension calls \<open>make_throws\<close> once for each size, in order, on one generator.
\<close>

definition sample_sizes :: "int list" where
  "sample_sizes = np_arange 1 1001 10"

fun throws_for_sizes :: "int \<Rightarrow> int list \<Rightarrow> rng \<Rightarrow> (error + npfloat list list) \<times> rng" where
  "throws_for_sizes m [] g = (Inr [], g)"
| "throws_for_sizes m (i # rest) g =
     (case make_throws m i g of
        (Inl e, g') \<Rightarrow> (Inl e, g')
      | (Inr means, g') \<Rightarrow>
          (case throws_for_sizes m rest g' of
             (Inl e, g'') \<Rightarrow> (Inl e, g'')
           | (Inr ms, g'') \<Rightarrow> (Inr (means # ms), g'')))"

definition sample_means :: "rng \<Rightarrow> (error + npfloat list list) \<times> rng" where
  "sample_means g = throws_for_sizes 200 sample_sizes g"

text \<open>
  \<^verbatim>\<open>
  mean_of_sample_means = [np.mean(means) for means in sample_means]
  sample_means_1000_replicates = [make_throws(number_of_samples=1000, sample_size=i) for i in sample_sizes]
  mean_of_sample_means_1000 = [np.mean(means) for means in sample_means_1000_replicates]
  \<close>
\<close>

definition mean_of_sample_means :: "npfloat list list \<Rightarrow> npfloat list" where
  "mean_of_sample_means sm = map np_mean sm"

definition sample_means_1000_replicates :: "rng \<Rightarrow> (error + npfloat list list) \<times> rng" where
  "sample_means_1000_replicates g = throws_for_sizes 1000 sample_sizes g"

text \<open>
  \<^verbatim>\<open>
  plt.hist(sample_means[99], bins=np.arange(0.4,0.6,0.005));
  \<close>
  The data of the histogram that the text presents for the sample size 1000.
\<close>

definition hist_data :: "npfloat list list \<Rightarrow> error + npfloat list" where
  "hist_data sm = getitem sm 99"

section \<open>Monte Carlo integration\<close>

text \<open>
  \<^verbatim>\<open>
  def f(x):
      return x**2 + 4*x*np.sin(x)

  def intf(x):
      return x**3/3.0+4.0*np.sin(x) - 4.0*x*np.cos(x)
  \<close>
\<close>

definition f :: "real \<Rightarrow> real" where
  "f x = x\<^sup>2 + 4 * x * sin x"

definition intf :: "real \<Rightarrow> real" where
  "intf x = x ^ 3 / 3 + 4 * sin x - 4 * x * cos x"

text \<open>
  \<^verbatim>\<open>
  a = 2;
  b = 3;
  Imc=np.zeros(1000)
  Na = np.linspace(0,1000,1000)

  exactval= intf(b)-intf(a)

  for N in np.arange(0,1000):
      X = np.random.uniform(low=a, high=b, size=N) # N values uniformly drawn from a to b
      Y =f(X)   # CALCULATE THE f(x)

      Imc[N]= (b-a) * np.sum(Y)/ N;

  plt.plot(Na[10:],np.sqrt((Imc[10:]-exactval)**2), alpha=0.7)
  plt.plot(Na[10:], 1/np.sqrt(Na[10:]), 'r')
  \<close>
  \<open>a\<close> and \<open>b\<close> are Python integers, \<open>N\<close> is an element of the integer array; the
  product and the quotient are float operations. A negative \<open>size\<close> raises ValueError.
\<close>

definition fscale :: "int \<Rightarrow> npfloat \<Rightarrow> npfloat" where
  "fscale c x = map_option (\<lambda>v. real_of_int c * v) x"

fun mc_loop ::
  "int \<Rightarrow> int \<Rightarrow> int list \<Rightarrow> npfloat list \<Rightarrow> rng \<Rightarrow> (error + npfloat list) \<times> rng" where
  "mc_loop a b [] Imc g = (Inr Imc, g)"
| "mc_loop a b (N # rest) Imc g =
     (if N < 0 then (Inl ValueError, g)
      else
        (let (X, g') = np_random_uniform (real_of_int a) (real_of_int b) (nat N) g;
             Y = map (map_option f) X
         in case setitem Imc N (true_divide (fscale (b - a) (np_sum Y)) N) of
              Inl e \<Rightarrow> (Inl e, g')
            | Inr Imc' \<Rightarrow> mc_loop a b rest Imc' g'))"

record mc_vars =
  Imc :: "npfloat list"
  Na :: "npfloat list"
  exactval :: real

definition mc_cell :: "rng \<Rightarrow> (error + mc_vars) \<times> rng" where
  "mc_cell g =
     (let a = 2; b = 3;
          Imc0 = np_zeros 1000;
          Na0 = np_linspace 0 1000 1000;
          ev = intf (real_of_int b) - intf (real_of_int a);
          (r, g') = mc_loop a b (np_arange 0 1000 1) Imc0 g
      in (case r of
            Inl e \<Rightarrow> Inl e
          | Inr Imc1 \<Rightarrow> Inr \<lparr>Imc = Imc1, Na = Na0, exactval = ev\<rparr>,
          g'))"

text \<open>The two curves the cell plots, each as its abscissae and its ordinates.\<close>

definition error_curve :: "mc_vars \<Rightarrow> npfloat list \<times> npfloat list" where
  "error_curve v =
     (slice_from (Na v) 10,
      map (map_option (\<lambda>y. sqrt ((y - exactval v)\<^sup>2))) (slice_from (Imc v) 10))"

definition reference_curve :: "mc_vars \<Rightarrow> npfloat list \<times> npfloat list" where
  "reference_curve v =
     (slice_from (Na v) 10,
      map (\<lambda>x. case x of None \<Rightarrow> None
                     | Some t \<Rightarrow> if sqrt t = 0 then None else Some (1 / sqrt t))
          (slice_from (Na v) 10))"

section \<open>The cells as programs\<close>

text \<open>
  The syntax of the cells: the expressions and statements that occur in the two notebooks,
  and the \<open>try\<close> statement with one \<open>except\<close> clause, which occurs in neither. A float
  literal is kept as it is written. \<open>Magic\<close> is a line that starts with \<open>%\<close>, \<open>Shell\<close> one
  that starts with \<open>!\<close>.
\<close>

datatype expr =
    Name string
  | Num int
  | Flt string
  | Str string
  | NoneLit
  | ListLit "expr list"
  | TupleLit "expr list"
  | Attr expr string
  | Call expr "expr list" "kwarg list"
  | Subscript expr expr
  | SliceAll
  | SliceTo expr
  | SliceFrom expr
  | SliceBetween expr expr
  | BinOp expr string expr
  | ListComp expr string expr
and kwarg = Kw string expr

datatype stmt =
    Import string string
  | FromImport string string
  | Assign string expr
  | AssignItem expr expr expr
  | ExprStmt expr
  | For string expr "stmt list"
  | Def string "string list" "stmt list"
  | Return expr
  | Try "stmt list" string "stmt list"
  | Magic string
  | Shell string

text \<open>
  The semantics follows the names: which of them are bound when a cell runs, and what the
  call of a library function does with its keywords. A name stands for a module, for a
  member of a module, or for any other object. An environment lists the bindings, the
  latest first.
\<close>

datatype pyval = Module string | Member string string | Obj

type_synonym env = "(string \<times> pyval) list"

text \<open>
  A name that is neither bound nor built in raises NameError, with Python's message.
\<close>

definition quoted :: "string \<Rightarrow> string" where
  "quoted s = [CHR 0x27] @ s @ [CHR 0x27]"

definition builtins :: "string list" where
  "builtins = [''print'', ''len'', ''range'', ''int'', ''float'']"

definition lookup :: "env \<Rightarrow> string \<Rightarrow> error + pyval" where
  "lookup env x =
     (case map_of env x of
        Some v \<Rightarrow> Inr v
      | None \<Rightarrow>
          if x \<in> set builtins then Inr Obj
          else Inl (NameError (''name '' @ quoted x @ '' is not defined'')))"

text \<open>
  A call of \<open>pandas.read_csv\<close> with a keyword that is not one of its parameters raises
  TypeError, with Python's message, for the first such keyword. The parameters of
  \<open>read_csv\<close> belong to the installed library and are a parameter here. Every other call
  returns an object.
\<close>

fun kw_name :: "kwarg \<Rightarrow> string" where
  "kw_name (Kw k e) = k"

definition call :: "string list \<Rightarrow> pyval \<Rightarrow> string list \<Rightarrow> error + pyval" where
  "call read_csv_params fn kws =
     (if fn = Member ''pandas'' ''read_csv'' then
        (case filter (\<lambda>k. k \<notin> set read_csv_params) kws of
           [] \<Rightarrow> Inr Obj
         | k # _ \<Rightarrow>
             Inl (TypeError (''read_csv() got an unexpected keyword argument '' @ quoted k)))
      else Inr Obj)"

text \<open>
  Evaluation finds the first error, in Python's order: the callee, the positional
  arguments, the keyword arguments, then the call. An attribute of a module is a member of
  it; every other operation on objects returns an object. The element expression of a
  comprehension is evaluated once, with its variable bound: as far as names go, that is
  what happens for each element of an iterable that is not empty.
\<close>

fun eval :: "string list \<Rightarrow> env \<Rightarrow> expr \<Rightarrow> error + pyval"
  and first_error :: "string list \<Rightarrow> env \<Rightarrow> expr list \<Rightarrow> error option"
  and first_error_kw :: "string list \<Rightarrow> env \<Rightarrow> kwarg list \<Rightarrow> error option" where
  "eval ps env (Name x) = lookup env x"
| "eval ps env (Num n) = Inr Obj"
| "eval ps env (Flt s) = Inr Obj"
| "eval ps env (Str s) = Inr Obj"
| "eval ps env NoneLit = Inr Obj"
| "eval ps env (ListLit es) =
     (case first_error ps env es of Some err \<Rightarrow> Inl err | None \<Rightarrow> Inr Obj)"
| "eval ps env (TupleLit es) =
     (case first_error ps env es of Some err \<Rightarrow> Inl err | None \<Rightarrow> Inr Obj)"
| "eval ps env (Attr e a) =
     (case eval ps env e of
        Inl err \<Rightarrow> Inl err
      | Inr v \<Rightarrow> (case v of Module m \<Rightarrow> Inr (Member m a) | _ \<Rightarrow> Inr Obj))"
| "eval ps env (Call fn args kws) =
     (case eval ps env fn of
        Inl err \<Rightarrow> Inl err
      | Inr v \<Rightarrow>
          (case first_error ps env args of
             Some err \<Rightarrow> Inl err
           | None \<Rightarrow>
               (case first_error_kw ps env kws of
                  Some err \<Rightarrow> Inl err
                | None \<Rightarrow> call ps v (map kw_name kws))))"
| "eval ps env (Subscript e i) =
     (case eval ps env e of
        Inl err \<Rightarrow> Inl err
      | Inr v \<Rightarrow> (case eval ps env i of Inl err \<Rightarrow> Inl err | Inr w \<Rightarrow> Inr Obj))"
| "eval ps env SliceAll = Inr Obj"
| "eval ps env (SliceTo e) = (case eval ps env e of Inl err \<Rightarrow> Inl err | Inr v \<Rightarrow> Inr Obj)"
| "eval ps env (SliceFrom e) = (case eval ps env e of Inl err \<Rightarrow> Inl err | Inr v \<Rightarrow> Inr Obj)"
| "eval ps env (SliceBetween e1 e2) =
     (case eval ps env e1 of
        Inl err \<Rightarrow> Inl err
      | Inr v \<Rightarrow> (case eval ps env e2 of Inl err \<Rightarrow> Inl err | Inr w \<Rightarrow> Inr Obj))"
| "eval ps env (BinOp l opr r) =
     (case eval ps env l of
        Inl err \<Rightarrow> Inl err
      | Inr v \<Rightarrow> (case eval ps env r of Inl err \<Rightarrow> Inl err | Inr w \<Rightarrow> Inr Obj))"
| "eval ps env (ListComp e x it) =
     (case eval ps env it of
        Inl err \<Rightarrow> Inl err
      | Inr v \<Rightarrow> (case eval ps ((x, Obj) # env) e of Inl err \<Rightarrow> Inl err | Inr w \<Rightarrow> Inr Obj))"
| "first_error ps env [] = None"
| "first_error ps env (e # es) =
     (case eval ps env e of Inl err \<Rightarrow> Some err | Inr v \<Rightarrow> first_error ps env es)"
| "first_error_kw ps env [] = None"
| "first_error_kw ps env (Kw k e # kws) =
     (case eval ps env e of Inl err \<Rightarrow> Some err | Inr v \<Rightarrow> first_error_kw ps env kws)"

text \<open>
  Execution returns the error that leaves the statement, if there is one, and the bindings
  made until then. An import binds its name to the module, which is taken to be installed.
  An assignment binds its name only after its right-hand side has been evaluated. The body
  of a loop is run once, like the element expression of a comprehension; a function
  definition binds the name of the function and runs nothing. Only a \<open>try\<close> statement
  whose clause names the class of the error, one of its base classes or no class at all
  stops an error.
\<close>

fun error_class :: "error \<Rightarrow> string" where
  "error_class IndexError = ''IndexError''"
| "error_class ValueError = ''ValueError''"
| "error_class (TypeError m) = ''TypeError''"
| "error_class (NameError m) = ''NameError''"

definition catches :: "string \<Rightarrow> error \<Rightarrow> bool" where
  "catches cls e =
     (cls = [] \<or> cls = ''Exception'' \<or> cls = ''BaseException'' \<or> cls = error_class e)"

fun exec :: "string list \<Rightarrow> env \<Rightarrow> stmt \<Rightarrow> error option \<times> env"
  and exec_all :: "string list \<Rightarrow> env \<Rightarrow> stmt list \<Rightarrow> error option \<times> env" where
  "exec ps env (Import m alias) = (None, (alias, Module m) # env)"
| "exec ps env (FromImport m x) = (None, (x, Member m x) # env)"
| "exec ps env (Assign x e) =
     (case eval ps env e of Inl err \<Rightarrow> (Some err, env) | Inr v \<Rightarrow> (None, (x, v) # env))"
| "exec ps env (AssignItem obj i e) = (first_error ps env [e, obj, i], env)"
| "exec ps env (ExprStmt e) = (first_error ps env [e], env)"
| "exec ps env (For x it body) =
     (case eval ps env it of
        Inl err \<Rightarrow> (Some err, env)
      | Inr v \<Rightarrow> exec_all ps ((x, Obj) # env) body)"
| "exec ps env (Def name params body) = (None, (name, Obj) # env)"
| "exec ps env (Return e) = (first_error ps env [e], env)"
| "exec ps env (Try body cls handler) =
     (case exec_all ps env body of
        (None, env') \<Rightarrow> (None, env')
      | (Some err, env') \<Rightarrow>
          if catches cls err then exec_all ps env' handler else (Some err, env'))"
| "exec ps env (Magic line) = (None, env)"
| "exec ps env (Shell line) = (None, env)"
| "exec_all ps env [] = (None, env)"
| "exec_all ps env (s # rest) =
     (case exec ps env s of
        (None, env') \<Rightarrow> exec_all ps env' rest
      | (Some err, env') \<Rightarrow> (Some err, env'))"

text \<open>
  The cells of a notebook are run in order, each on the bindings the earlier ones have left;
  an error ends its cell and not the run. The result lists, for each cell, its error and the
  bindings after it.
\<close>

fun run_cells :: "string list \<Rightarrow> env \<Rightarrow> stmt list list \<Rightarrow> (error option \<times> env) list" where
  "run_cells ps env [] = []"
| "run_cells ps env (cell # cells) =
     (case exec_all ps env cell of (r, env') \<Rightarrow> (r, env') # run_cells ps env' cells)"

text \<open>A statement that contains a handler, at any depth.\<close>

fun has_handler :: "stmt \<Rightarrow> bool" where
  "has_handler (Try body cls handler) = True"
| "has_handler (For x it body) = list_ex has_handler body"
| "has_handler (Def name params body) = list_ex has_handler body"
| "has_handler s = False"

definition outcomes :: "string list \<Rightarrow> stmt list list \<Rightarrow> error option list" where
  "outcomes ps cells = map fst (run_cells ps [] cells)"

definition unbound_throughout :: "string \<Rightarrow> string list \<Rightarrow> stmt list list \<Rightarrow> bool" where
  "unbound_throughout x ps cells =
     list_all (\<lambda>(r, env). map_of env x = None) (run_cells ps [] cells)"

text \<open>The keyword parameters of \<open>read_csv\<close> in pandas 2, for a concrete instance.\<close>

definition pandas_read_csv_params :: "string list" where
  "pandas_read_csv_params =
     [''filepath_or_buffer'', ''sep'', ''delimiter'', ''header'', ''names'', ''index_col'',
      ''usecols'', ''dtype'', ''engine'', ''converters'', ''true_values'', ''false_values'',
      ''skipinitialspace'', ''skiprows'', ''skipfooter'', ''nrows'', ''na_values'',
      ''keep_default_na'', ''na_filter'', ''skip_blank_lines'', ''parse_dates'',
      ''date_format'', ''dayfirst'', ''cache_dates'', ''iterator'', ''chunksize'',
      ''compression'', ''thousands'', ''decimal'', ''lineterminator'', ''quotechar'',
      ''quoting'', ''doublequote'', ''escapechar'', ''comment'', ''encoding'',
      ''encoding_errors'', ''dialect'', ''on_bad_lines'', ''low_memory'', ''memory_map'',
      ''float_precision'', ''storage_options'', ''dtype_backend'']"

section \<open>The code cells of the two notebooks\<close>

text \<open>
  The code cells of the notebook on NumPy arrays, in the order of the file; the two cells
  that load the CSV file and drop its first column have a name.
\<close>

text \<open>
  \<^verbatim>\<open>
  import pandas as pd
  test_data = pd.read_csv("/Users/yudhistirabiswal/Downloads/MNIST_CSV/mnist_test.csv", head= None)
  test_data.head()
  \<close>
\<close>

definition read_csv_cell :: "stmt list" where
  "read_csv_cell =
     [Import ''pandas'' ''pd'',
      Assign ''test_data''
        (Call (Attr (Name ''pd'') ''read_csv'')
           [Str ''/Users/yudhistirabiswal/Downloads/MNIST_CSV/mnist_test.csv'']
           [Kw ''head'' NoneLit]),
      ExprStmt (Call (Attr (Name ''test_data'') ''head'') [] [])]"

text \<open>
  \<^verbatim>\<open>
  test_images_df = test_data.drop(0, axis=1)
  test_images_df.shape
  \<close>
\<close>

definition drop_cell :: "stmt list" where
  "drop_cell =
     [Assign ''test_images_df''
        (Call (Attr (Name ''test_data'') ''drop'') [Num 0] [Kw ''axis'' (Num 1)]),
      ExprStmt (Attr (Name ''test_images_df'') ''shape'')]"

definition numpy_notebook :: "stmt list list" where
  "numpy_notebook =
     [ [Import ''numpy'' ''np''],
      [Assign ''my_array''
         (Call (Attr (Name ''np'') ''array'') [ListLit [Num 1, Num 2, Num 3, Num 4]] []),
       ExprStmt (Name ''my_array'')],
      [ExprStmt (Call (Name ''print'') [Call (Name ''len'') [Name ''my_array''] []] []),
       ExprStmt
         (Call (Name ''print'') [Subscript (Name ''my_array'') (SliceBetween (Num 2) (Num 4))]
            []),
       For ''ele'' (Name ''my_array'') [ExprStmt (Call (Name ''print'') [Name ''ele''] [])]],
      [ExprStmt (Call (Name ''print'') [Call (Attr (Name ''my_array'') ''mean'') [] []] []),
       ExprStmt
         (Call (Name ''print'') [Call (Attr (Name ''np'') ''mean'') [Name ''my_array''] []] [])],
      [ExprStmt (Call (Attr (Name ''np'') ''ones'') [Num 10] [])],
      [ExprStmt (Attr (Call (Attr (Name ''np'') ''dtype'') [Name ''float''] []) ''itemsize'')],
      [ExprStmt (Call (Attr (Name ''np'') ''ones'') [Num 10] [Kw ''dtype'' (Str ''int'')])],
      [ExprStmt
         (Attr (Call (Attr (Name ''np'') ''ones'') [Num 10] [Kw ''dtype'' (Str ''int'')])
            ''dtype'')],
      [ExprStmt (Call (Attr (Name ''np'') ''zeros'') [Num 10] [])],
      [ExprStmt (Call (Attr (Name ''np'') ''eye'') [Num 3] [])],
      [ExprStmt
         (BinOp (Call (Attr (Name ''np'') ''eye'') [Num 3] []) ''@''
            (Call (Attr (Name ''np'') ''array'') [ListLit [Num 1, Num 2, Num 3]] []))],
      [ExprStmt
         (TupleLit
            [Attr (Call (Attr (Name ''np'') ''eye'') [Num 3] []) ''shape'',
             Attr (Call (Attr (Name ''np'') ''array'') [ListLit [Num 1, Num 2, Num 3]] [])
               ''shape''])],
      [Assign ''first'' (Call (Attr (Name ''np'') ''ones'') [Num 5] []),
       Assign ''second'' (Call (Attr (Name ''np'') ''ones'') [Num 5] []),
       ExprStmt (BinOp (Name ''first'') ''+'' (Name ''second''))],
      [Assign ''first_list''
         (ListLit [Flt ''1.'', Flt ''1.'', Flt ''1.'', Flt ''1.'', Flt ''1.'']),
       Assign ''second_list''
         (ListLit [Flt ''1.'', Flt ''1.'', Flt ''1.'', Flt ''1.'', Flt ''1.'']),
       ExprStmt (BinOp (Name ''first_list'') ''+'' (Name ''second_list''))],
      [ExprStmt (BinOp (Name ''first'') ''+'' (Num 1))],
      [ExprStmt (BinOp (Name ''first'') ''*'' (Num 5))],
      [Assign ''my_array2d''
         (Call (Attr (Name ''np'') ''array'')
            [ListLit
               [ListLit [Num 1, Num 2, Num 3, Num 4],
                ListLit [Num 5, Num 6, Num 7, Num 8],
                ListLit [Num 9, Num 10, Num 11, Num 12]]]
            []),
       ExprStmt (Name ''my_array2d'')],
      [ExprStmt (Attr (Name ''my_array2d'') ''shape'')],
      [Assign ''ones_2d'' (Call (Attr (Name ''np'') ''ones'') [ListLit [Num 3, Num 4]] []),
       ExprStmt (Name ''ones_2d'')],
      [ExprStmt (Call (Name ''print'') [Name ''my_array2d''] []),
       ExprStmt (Subscript (Name ''my_array2d'') (TupleLit [Num 2, Num 3]))],
      [Assign ''onesarray'' (Call (Attr (Name ''np'') ''ones'') [ListLit [Num 3, Num 4]] []),
       ExprStmt (Name ''onesarray'')],
      [ExprStmt (Attr (Name ''onesarray'') ''shape'')],
      [ExprStmt (Call (Attr (Name ''np'') ''sum'') [Name ''onesarray''] [])],
      [ExprStmt (Call (Attr (Name ''np'') ''sum'') [Name ''onesarray''] [Kw ''axis'' (Num 0)])],
      [ExprStmt (Call (Attr (Name ''np'') ''sum'') [Name ''my_array2d''] [Kw ''axis'' (Num 0)])],
      [ExprStmt (Call (Attr (Name ''np'') ''sum'') [Name ''onesarray''] [Kw ''axis'' (Num 1)])],
      read_csv_cell,
      [Assign ''labels''
         (Attr (Call (Attr (Subscript (Name ''test_data'') (Num 0)) ''copy'') [] []) ''values'')],
      [ExprStmt (Name ''labels'')],
      drop_cell,
      [Assign ''test_images'' (Attr (Name ''test_images_df'') ''values'')],
      [ExprStmt (Attr (Name ''test_images'') ''shape'')],
      [Assign ''test_images_tensor''
         (Call (Attr (Name ''test_images'') ''reshape'') [Num (- 1), Num 28, Num 28] []),
       ExprStmt (Attr (Name ''test_iamges_tensor'') ''shape'')],
      [Shell ''head -10 /Users/yudhistirabiswal/Downloads/MNIST_CSV/mnist_test.csv''],
      [Import ''matplotlib'' ''matplotlib''],
      [Import ''matplotlib.pyplot'' ''plt''],
      [ExprStmt (Call (Attr (Name ''plt'') ''imshow'') [Name ''first_image''] [])]]"

text \<open>The code cells of the notebook on Gaussians, in the order of the file.\<close>

definition gaussians_notebook :: "stmt list list" where
  "gaussians_notebook =
     [ [Magic ''matplotlib inline'',
       Import ''numpy'' ''np'',
       Import ''scipy'' ''sp'',
       Import ''matplotlib'' ''mpl'',
       Import ''matplotlib.cm'' ''cm'',
       Import ''matplotlib.pyplot'' ''plt'',
       Import ''pandas'' ''pd'',
       FromImport ''scipy.stats'' ''bernoulli''],
      [Def ''throw_a_coin'' [''n'']
         [Assign ''brv'' (Call (Name ''bernoulli'') [Flt ''0.5''] []),
          Return (Call (Attr (Name ''brv'') ''rvs'') [] [Kw ''size'' (Name ''n'')])]],
      [Assign ''random_flips'' (Call (Name ''throw_a_coin'') [Num 10000] []),
       Assign ''running_means'' (Call (Attr (Name ''np'') ''zeros'') [Num 10000] []),
       Assign ''sequence_lengths''
         (Call (Attr (Name ''np'') ''arange'') [Num 1, Num 10001, Num 1] []),
       For ''i'' (Name ''sequence_lengths'')
         [AssignItem (Name ''running_means'') (BinOp (Name ''i'') ''-'' (Num 1))
            (Call (Attr (Name ''np'') ''mean'')
               [Subscript (Name ''random_flips'') (SliceTo (Name ''i''))] [])]],
      [ExprStmt
         (Call (Attr (Name ''plt'') ''plot'')
            [Name ''sequence_lengths'', Name ''running_means''] []),
       ExprStmt (Call (Attr (Name ''plt'') ''xscale'') [Str ''log''] [])],
      [Def ''make_throws'' [''number_of_samples'', ''sample_size'']
         [Assign ''start''
            (Call (Attr (Name ''np'') ''zeros'')
               [TupleLit [Name ''number_of_samples'', Name ''sample_size'']]
               [Kw ''dtype'' (Name ''int'')]),
          For ''i'' (Call (Name ''range'') [Name ''number_of_samples''] [])
            [AssignItem (Name ''start'') (TupleLit [Name ''i'', SliceAll])
               (Call (Name ''throw_a_coin'') [Name ''sample_size''] [])],
          Return (Call (Attr (Name ''np'') ''mean'') [Name ''start''] [Kw ''axis'' (Num 1)])]],
      [ExprStmt
         (Call (Name ''make_throws'') []
            [Kw ''number_of_samples'' (Num 20), Kw ''sample_size'' (Num 10)])],
      [Assign ''sample_sizes''
         (Call (Attr (Name ''np'') ''arange'') [Num 1, Num 1001, Num 10] []),
       Assign ''sample_means''
         (ListComp
            (Call (Name ''make_throws'') []
               [Kw ''number_of_samples'' (Num 200), Kw ''sample_size'' (Name ''i'')])
            ''i'' (Name ''sample_sizes''))],
      [Assign ''mean_of_sample_means''
         (ListComp (Call (Attr (Name ''np'') ''mean'') [Name ''means''] []) ''means''
            (Name ''sample_means'')),
       ExprStmt (Call (Name ''len'') [Name ''mean_of_sample_means''] [])],
      [ExprStmt
         (Call (Attr (Name ''plt'') ''plot'')
            [Name ''sample_sizes'', Name ''mean_of_sample_means''] []),
       ExprStmt
         (Call (Attr (Name ''plt'') ''ylim'') [ListLit [Flt ''0.480'', Flt ''0.520'']] []),
       ExprStmt
         (Call (Attr (Name ''plt'') ''axhline'') [Flt ''0.5'', Num 0, Num 1]
            [Kw ''color'' (Str ''r'')])],
      [Assign ''sample_means_1000_replicates''
         (ListComp
            (Call (Name ''make_throws'') []
               [Kw ''number_of_samples'' (Num 1000), Kw ''sample_size'' (Name ''i'')])
            ''i'' (Name ''sample_sizes'')),
       Assign ''mean_of_sample_means_1000''
         (ListComp (Call (Attr (Name ''np'') ''mean'') [Name ''means''] []) ''means''
            (Name ''sample_means_1000_replicates''))],
      [ExprStmt
         (Call (Attr (Name ''plt'') ''plot'')
            [Name ''sample_sizes'', Name ''mean_of_sample_means_1000''] []),
       ExprStmt
         (Call (Attr (Name ''plt'') ''ylim'') [ListLit [Flt ''0.480'', Flt ''0.520'']] []),
       ExprStmt
         (Call (Attr (Name ''plt'') ''axhline'') [Flt ''0.5'', Num 0, Num 1]
            [Kw ''color'' (Str ''r'')])],
      [ExprStmt (Call (Name ''len'') [Name ''sample_means''] [])],
      [ExprStmt
         (TupleLit
            [Subscript (Name ''sample_sizes'') (Num 1),
             Subscript (Name ''sample_sizes'') (Num 40),
             Subscript (Name ''sample_sizes'') (Num 99)])],
      [For ''i'' (ListLit [Num 1, Num 40, Num 99])
         [ExprStmt
            (Call (Attr (Name ''plt'') ''scatter'')
               [BinOp (ListLit [Subscript (Name ''sample_sizes'') (Name ''i'')]) ''*'' (Num 200),
                Subscript (Name ''sample_means'') (Name ''i'')]
               [Kw ''alpha'' (Flt ''0.03'')])],
       ExprStmt (Call (Attr (Name ''plt'') ''xlim'') [ListLit [Num 0, Num 1000]] []),
       ExprStmt (Call (Attr (Name ''plt'') ''ylim'') [ListLit [Flt ''0.25'', Flt ''0.75'']] [])],
      [For ''i'' (ListLit [Num 1, Num 40, Num 99])
         [ExprStmt
            (Call (Attr (Name ''plt'') ''scatter'')
               [BinOp (ListLit [Subscript (Name ''sample_sizes'') (Name ''i'')]) ''*''
                  (Num 1000),
                Subscript (Name ''sample_means_1000_replicates'') (Name ''i'')]
               [Kw ''alpha'' (Flt ''0.03'')])],
       ExprStmt (Call (Attr (Name ''plt'') ''xlim'') [ListLit [Num 0, Num 1000]] []),
       ExprStmt (Call (Attr (Name ''plt'') ''ylim'') [ListLit [Flt ''0.25'', Flt ''0.75'']] [])],
      [Assign ''std_of_sample_means_1000''
         (ListComp (Call (Attr (Name ''np'') ''std'') [Name ''means''] []) ''means''
            (Name ''sample_means_1000_replicates''))],
      [ExprStmt
         (Call (Attr (Name ''plt'') ''plot'')
            [Call (Attr (Name ''np'') ''log10'') [Name ''sample_sizes''] [],
             Call (Attr (Name ''np'') ''log10'') [Name ''std_of_sample_means_1000''] []]
            [])],
      [ExprStmt
         (Call (Attr (Name ''np'') ''mean'')
            [BinOp
               (Call (Attr (Name ''np'') ''diff'')
                  [Call (Attr (Name ''np'') ''log10'') [Name ''std_of_sample_means_1000''] []]
                  [])
               ''/''
               (Call (Attr (Name ''np'') ''diff'')
                  [Call (Attr (Name ''np'') ''log10'') [Name ''sample_sizes''] []] [])]
            [])],
      [ExprStmt
         (Call (Attr (Name ''plt'') ''hist'') [Subscript (Name ''sample_means'') (Num 99)]
            [Kw ''bins''
               (Call (Attr (Name ''np'') ''arange'') [Flt ''0.4'', Flt ''0.6'', Flt ''0.005'']
                  [])])],
      [Def ''f'' [''x'']
         [Return
            (BinOp (BinOp (Name ''x'') ''**'' (Num 2)) ''+''
               (BinOp (BinOp (Num 4) ''*'' (Name ''x'')) ''*''
                  (Call (Attr (Name ''np'') ''sin'') [Name ''x''] [])))],
       Def ''intf'' [''x'']
         [Return
            (BinOp
               (BinOp (BinOp (BinOp (Name ''x'') ''**'' (Num 3)) ''/'' (Flt ''3.0'')) ''+''
                  (BinOp (Flt ''4.0'') ''*'' (Call (Attr (Name ''np'') ''sin'') [Name ''x''] [])))
               ''-''
               (BinOp (BinOp (Flt ''4.0'') ''*'' (Name ''x'')) ''*''
                  (Call (Attr (Name ''np'') ''cos'') [Name ''x''] [])))]],
      [Assign ''a'' (Num 2),
       Assign ''b'' (Num 3),
       Assign ''Imc'' (Call (Attr (Name ''np'') ''zeros'') [Num 1000] []),
       Assign ''Na'' (Call (Attr (Name ''np'') ''linspace'') [Num 0, Num 1000, Num 1000] []),
       Assign ''exactval''
         (BinOp (Call (Name ''intf'') [Name ''b''] []) ''-''
            (Call (Name ''intf'') [Name ''a''] [])),
       For ''N'' (Call (Attr (Name ''np'') ''arange'') [Num 0, Num 1000] [])
         [Assign ''X''
            (Call (Attr (Attr (Name ''np'') ''random'') ''uniform'') []
               [Kw ''low'' (Name ''a''), Kw ''high'' (Name ''b''), Kw ''size'' (Name ''N'')]),
          Assign ''Y'' (Call (Name ''f'') [Name ''X''] []),
          AssignItem (Name ''Imc'') (Name ''N'')
            (BinOp
               (BinOp (BinOp (Name ''b'') ''-'' (Name ''a'')) ''*''
                  (Call (Attr (Name ''np'') ''sum'') [Name ''Y''] []))
               ''/'' (Name ''N''))],
       ExprStmt
         (Call (Attr (Name ''plt'') ''plot'')
            [Subscript (Name ''Na'') (SliceFrom (Num 10)),
             Call (Attr (Name ''np'') ''sqrt'')
               [BinOp
                  (BinOp (Subscript (Name ''Imc'') (SliceFrom (Num 10))) ''-''
                     (Name ''exactval''))
                  ''**'' (Num 2)]
               []]
            [Kw ''alpha'' (Flt ''0.7'')]),
       ExprStmt
         (Call (Attr (Name ''plt'') ''plot'')
            [Subscript (Name ''Na'') (SliceFrom (Num 10)),
             BinOp (Num 1) ''/''
               (Call (Attr (Name ''np'') ''sqrt'')
                  [Subscript (Name ''Na'') (SliceFrom (Num 10))] []),
             Str ''r'']
            []),
       ExprStmt (Call (Attr (Name ''plt'') ''xlabel'') [Str ''N''] []),
       ExprStmt (Call (Attr (Name ''plt'') ''ylabel'') [Str ''sqrt((Imc-ExactValue)$^2$)''] [])],
      [Assign ''m'' (Num 1000),
       Assign ''N'' (Num 10000),
       Assign ''Imc'' (Call (Attr (Name ''np'') ''zeros'') [Name ''m''] []),
       For ''i'' (Call (Attr (Name ''np'') ''arange'') [Name ''m''] [])
         [Assign ''X''
            (Call (Attr (Attr (Name ''np'') ''random'') ''uniform'') []
               [Kw ''low'' (Name ''a''), Kw ''high'' (Name ''b''), Kw ''size'' (Name ''N'')]),
          Assign ''Y'' (Call (Name ''f'') [Name ''X''] []),
          AssignItem (Name ''Imc'') (Name ''i'')
            (BinOp
               (BinOp (BinOp (Name ''b'') ''-'' (Name ''a'')) ''*''
                  (Call (Attr (Name ''np'') ''sum'') [Name ''Y''] []))
               ''/'' (Name ''N''))],
       ExprStmt (Call (Attr (Name ''plt'') ''hist'') [Name ''Imc''] [Kw ''bins'' (Num 30)]),
       ExprStmt (Call (Attr (Name ''plt'') ''xlabel'') [Str ''Imc''] []),
       ExprStmt
         (Call (Name ''print'')
            [Call (Attr (Name ''np'') ''mean'') [Name ''Imc''] [],
             Call (Attr (Name ''np'') ''std'') [Name ''Imc''] []]
            [])]]"

section \<open>The quantities the text speaks of\<close>

text \<open>
  The arithmetic mean of the textbook and the running average \<open>S\<^sub>n\<close> of the first \<open>n\<close>
  flips; the generator after \<open>n\<close> draws; the flips of the \<open>m\<close>-th replication of size \<open>n\<close>,
  which are those of a call of \<open>throw_a_coin(n)\<close> after \<open>m\<close> earlier ones.
\<close>

definition arithmetic_mean :: "real list \<Rightarrow> real" where
  "arithmetic_mean xs = (\<Sum>k<length xs. xs ! k) / real (length xs)"

definition running_average :: "int list \<Rightarrow> nat \<Rightarrow> real" where
  "running_average xs n = arithmetic_mean (map real_of_int (take n xs))"

definition advance :: "nat \<Rightarrow> rng \<Rightarrow> rng" where
  "advance n g = (\<lambda>k. g (n + k))"

definition replication :: "nat \<Rightarrow> rng \<Rightarrow> nat \<Rightarrow> int list" where
  "replication n g m = fst (throw_a_coin n (advance (m * n) g))"

text \<open>
  The value that the iteration \<open>N\<close> of the Monte Carlo loop stores, from the generator the
  iteration starts with.
\<close>

definition mc_entry :: "int \<Rightarrow> int \<Rightarrow> nat \<Rightarrow> rng \<Rightarrow> npfloat" where
  "mc_entry a b n g =
     true_divide
       (fscale (b - a)
          (np_sum (map (map_option f)
             (fst (np_random_uniform (real_of_int a) (real_of_int b) n g)))))
       (int n)"

text \<open>
  The points of the \<open>n\<close>-th Monte Carlo estimate: the \<open>n\<close> variates that follow the
  \<open>0 + 1 + ... + (n - 1)\<close> of the earlier iterations, moved to the interval from 2 to 3.
\<close>

definition mc_sample :: "rng \<Rightarrow> nat \<Rightarrow> real list" where
  "mc_sample g n = map (\<lambda>u. 2 + (3 - 2) * u) (fst (draw n (advance (n * (n - 1) div 2) g)))"

text \<open>
  The number of variates the comprehension has drawn before its \<open>k\<close>-th call of
  \<open>make_throws\<close>: \<open>m\<close> samples for each of the earlier sizes.
\<close>

definition draws_before :: "int \<Rightarrow> int list \<Rightarrow> nat \<Rightarrow> nat" where
  "draws_before m sizes k = nat m * (\<Sum>j<k. nat (sizes ! j))"

text \<open>A float that is a number of the closed interval from 0 to 1.\<close>

definition in_unit :: "npfloat \<Rightarrow> bool" where
  "in_unit v = (case v of None \<Rightarrow> False | Some x \<Rightarrow> 0 \<le> x \<and> x \<le> 1)"

text \<open>A generator for concrete runs: its variates alternate between 1/4 and 3/4.\<close>

definition fair_source :: rng where
  "fair_source k = (if even k then 1 / 4 else 3 / 4)"

section \<open>Facts about the library calls\<close>

lemma foldl_fadd_Some:
  "foldl fadd (Some a) (map Some xs) = Some (a + sum_list xs)"
  by (induction xs arbitrary: a) (simp_all add: add.assoc)

lemma np_sum_as_float: "np_sum (as_float xs) = Some (real_of_int (sum_list xs))"
proof -
  have "as_float xs = map Some (map real_of_int xs)"
    by (simp add: as_float_def)
  then have "np_sum (as_float xs) = Some (0 + sum_list (map real_of_int xs))"
    unfolding np_sum_def by (simp only: foldl_fadd_Some)
  also have "sum_list (map real_of_int xs) = real_of_int (sum_list xs)"
    by (induction xs) simp_all
  finally show ?thesis by simp
qed

lemma np_mean_as_float:
  "np_mean (as_float xs) =
     (if xs = [] then None else Some (real_of_int (sum_list xs) / real (length xs)))"
proof -
  have "length (as_float xs) = length xs"
    by (simp add: as_float_def)
  then show ?thesis
    by (simp add: np_mean_def np_sum_as_float true_divide_def)
qed

lemma np_mean_arithmetic:
  assumes "xs \<noteq> []"
  shows "np_mean (as_float xs) = Some (arithmetic_mean (map real_of_int xs))"
proof -
  have "real_of_int (sum_list xs) = sum_list (map real_of_int xs)"
    by (induction xs) simp_all
  also have "\<dots> = (\<Sum>k<length xs. map real_of_int xs ! k)"
    by (simp add: sum_list_sum_nth lessThan_atLeast0)
  finally show ?thesis
    using assms by (simp add: np_mean_as_float arithmetic_mean_def)
qed

lemma np_mean_prefix:
  assumes "0 < n" and "n \<le> length xs"
  shows "np_mean (as_float (slice_to xs (int n))) = Some (running_average xs n)"
proof -
  have "slice_to xs (int n) = take n xs"
    by (simp add: slice_to_def)
  moreover have "take n xs \<noteq> []" using assms by auto
  ultimately show ?thesis
    by (simp add: np_mean_arithmetic running_average_def)
qed

lemma np_arange_unit: "np_arange 1 (int n + 1) 1 = map (\<lambda>k. int k + 1) [0..<n]"
  by (simp add: np_arange_def)

lemma running_means_loop_spec:
  assumes "\<forall>i\<in>set is. 1 \<le> i \<and> i \<le> int (length rm)"
  shows "\<exists>rm'. running_means_loop flips is rm = Inr rm' \<and> length rm' = length rm \<and>
           (\<forall>j<length rm. rm' ! j =
              (if int j + 1 \<in> set is then np_mean (as_float (slice_to flips (int j + 1)))
               else rm ! j))"
  using assms
proof (induction "is" arbitrary: rm)
  case Nil
  then show ?case by simp
next
  case (Cons i rest)
  let ?v = "np_mean (as_float (slice_to flips i))"
  let ?rm1 = "rm[nat (i - 1) := ?v]"
  from Cons.prems have bounds: "1 \<le> i" "i \<le> int (length rm)" by simp_all
  then have step: "setitem rm (i - 1) ?v = Inr ?rm1"
    by (simp add: setitem_def position_def)
  have "\<forall>i\<in>set rest. 1 \<le> i \<and> i \<le> int (length ?rm1)"
    using Cons.prems by simp
  from Cons.IH [OF this] obtain rm' where
    run: "running_means_loop flips rest ?rm1 = Inr rm'" and
    len: "length rm' = length ?rm1" and
    vals: "\<forall>j<length ?rm1. rm' ! j =
              (if int j + 1 \<in> set rest then np_mean (as_float (slice_to flips (int j + 1)))
               else ?rm1 ! j)"
    by blast
  have "running_means_loop flips (i # rest) rm = Inr rm'"
    using step run by simp
  moreover have "length rm' = length rm" using len by simp
  moreover have "\<forall>j<length rm. rm' ! j =
              (if int j + 1 \<in> set (i # rest) then np_mean (as_float (slice_to flips (int j + 1)))
               else rm ! j)"
  proof (intro allI impI)
    fix j assume j: "j < length rm"
    show "rm' ! j =
              (if int j + 1 \<in> set (i # rest) then np_mean (as_float (slice_to flips (int j + 1)))
               else rm ! j)"
    proof (cases "int j + 1 \<in> set rest")
      case True
      then show ?thesis using vals j by simp
    next
      case False
      show ?thesis
      proof (cases "int j + 1 = i")
        case True
        then have "nat (i - 1) = j" by simp
        then show ?thesis using vals j False True by simp
      next
        case neq: False
        then have "nat (i - 1) \<noteq> j" using bounds by auto
        then show ?thesis using vals j False neq by simp
      qed
    qed
  qed
  ultimately show ?case by blast
qed

lemma draw_length: "length (fst (draw n g)) = n"
  by (simp add: draw_def)

lemma throw_a_coin_length: "length (fst (throw_a_coin n g)) = n"
  by (simp add: throw_a_coin_def bernoulli_rvs_def draw_def)

section \<open>The running means\<close>

text \<open>
  Claim C4. In the law-of-large-numbers cell the loop ends without an error. Afterwards, for
  every \<open>i\<close> from 1 to 10000, \<open>running_means[i-1]\<close> is the arithmetic mean of the first
  \<open>i\<close> elements of \<open>random_flips\<close>, the running average of the coin flips, and
  \<open>sequence_lengths\<close> is the sequence 1, 2, ..., 10000.
\<close>

theorem lln_running_means:
  "\<exists>st. fst (lln_cell g) = Inr st \<and>
        random_flips st = fst (throw_a_coin 10000 g) \<and>
        sequence_lengths st = map int [1..<10001] \<and>
        length (running_means st) = 10000 \<and>
        (\<forall>i\<in>{1..10000}. running_means st ! (i - 1) = Some (running_average (random_flips st) i))"
proof -
  obtain flips g' where tc: "throw_a_coin 10000 g = (flips, g')"
    by (cases "throw_a_coin 10000 g")
  have len: "length flips = 10000"
    using throw_a_coin_length [of 10000 g] tc by simp
  have lens: "np_arange 1 10001 1 = map (\<lambda>k. int k + 1) [0..<10000]"
    using np_arange_unit [of 10000] by simp
  have "\<forall>i\<in>set (np_arange 1 10001 1). 1 \<le> i \<and> i \<le> int (length (np_zeros 10000))"
    by (auto simp: lens np_zeros_def)
  from running_means_loop_spec [OF this, of flips] obtain rm where
    run: "running_means_loop flips (np_arange 1 10001 1) (np_zeros 10000) = Inr rm" and
    rlen: "length rm = length (np_zeros 10000)" and
    vals: "\<forall>j<length (np_zeros 10000). rm ! j =
              (if int j + 1 \<in> set (np_arange 1 10001 1)
               then np_mean (as_float (slice_to flips (int j + 1)))
               else np_zeros 10000 ! j)"
    by blast
  let ?st = "\<lparr>random_flips = flips, running_means = rm, sequence_lengths = np_arange 1 10001 1\<rparr>"
  have cell: "fst (lln_cell g) = Inr ?st"
    by (simp add: lln_cell_def tc run)
  have seq: "np_arange 1 10001 1 = map int [1..<10001]"
    unfolding lens by (rule nth_equalityI) (simp_all add: nth_append)
  have each: "rm ! (i - 1) = Some (running_average flips i)" if "i \<in> {1..10000}" for i :: nat
  proof -
    from that have i: "0 < i" "i \<le> 10000" by simp_all
    then have mem: "int (i - 1) + 1 \<in> set (np_arange 1 10001 1)"
      by (auto simp: lens image_iff intro!: bexI [of _ "i - 1"])
    have "i - 1 < length (np_zeros 10000)" using i by (simp add: np_zeros_def)
    with vals mem have "rm ! (i - 1) = np_mean (as_float (slice_to flips (int (i - 1) + 1)))"
      by simp
    moreover have "int (i - 1) + 1 = int i" using i by simp
    ultimately show ?thesis
      using np_mean_prefix [of i flips] i len by simp
  qed
  show ?thesis
    using cell seq rlen each tc by (intro exI [of _ ?st]) (simp add: np_zeros_def)
qed

text \<open>The cell on a concrete generator: its first flip is 1, and so is the first mean.\<close>

theorem lln_running_means_witness:
  "(1::nat) \<in> {1..10000} \<and>
   (\<exists>st. fst (lln_cell fair_source) = Inr st \<and> running_means st ! 0 = Some 1)"
proof -
  from lln_running_means [of fair_source] obtain st where
    st: "fst (lln_cell fair_source) = Inr st"
        "random_flips st = fst (throw_a_coin 10000 fair_source)"
        "\<forall>i\<in>{1..10000}. running_means st ! (i - 1) = Some (running_average (random_flips st) i)"
    by blast
  have one: "(1::nat) \<in> {1..10000}" by simp
  with st(3) have "running_means st ! (1 - 1) = Some (running_average (random_flips st) 1)"
    by blast
  moreover have "take 1 (random_flips st) = [1]"
    unfolding st(2)
    by (simp add: throw_a_coin_def bernoulli_rvs_def draw_def take_map fair_source_def take_Suc_conv_app_nth)
  then have "running_average (random_flips st) 1 = 1"
    unfolding running_average_def by (simp add: arithmetic_mean_def)
  ultimately have "running_means st ! 0 = Some 1"
    by simp
  with st(1) one show ?thesis by blast
qed

section \<open>Samples and their means\<close>

lemma advance_0: "advance 0 g = g"
  by (simp add: advance_def)

lemma advance_advance: "advance m (advance n g) = advance (n + m) g"
  by (simp add: advance_def add.assoc)

lemma throw_a_coin_eq:
  "throw_a_coin n g = (map (\<lambda>k. if g k < 1 / 2 then 1 else 0) [0..<n], advance n g)"
  by (simp add: throw_a_coin_def bernoulli_rvs_def draw_def advance_def)

lemma replication_eq:
  "replication n g m = map (\<lambda>k. if g (m * n + k) < 1 / 2 then 1 else 0) [0..<n]"
  by (simp add: replication_def throw_a_coin_eq advance_def)

lemma make_throws_loop_spec:
  assumes "j0 + c \<le> length start" and "\<forall>row\<in>set start. length row = n"
  shows "\<exists>start'. make_throws_loop n (map int [j0..<j0 + c]) start g
                     = (Inr start', advance (c * n) g) \<and>
           length start' = length start \<and>
           (\<forall>j<length start. start' ! j =
              (if j0 \<le> j \<and> j < j0 + c then fst (throw_a_coin n (advance ((j - j0) * n) g))
               else start ! j))"
  using assms
proof (induction c arbitrary: j0 start g)
  case 0
  then show ?case by (auto simp: advance_0)
next
  case (Suc c)
  let ?flips = "fst (throw_a_coin n g)"
  let ?start1 = "start[j0 := ?flips]"
  have j0: "j0 < length start" using Suc.prems by simp
  then have "length (start ! j0) = n" using Suc.prems by simp
  then have step: "setrow start (int j0) ?flips = Inr ?start1"
    using j0 by (simp add: setrow_def position_def throw_a_coin_length)
  have tc: "throw_a_coin n g = (?flips, advance n g)"
    by (simp add: throw_a_coin_eq)
  have rows: "\<forall>row\<in>set ?start1. length row = n"
    using Suc.prems(2) by (auto simp: throw_a_coin_length dest!: set_update_subset_insert [THEN subsetD])
  have "Suc j0 + c \<le> length ?start1" using Suc.prems by simp
  from Suc.IH [OF this rows, of "advance n g"] obtain start' where
    run: "make_throws_loop n (map int [Suc j0..<Suc j0 + c]) ?start1 (advance n g)
            = (Inr start', advance (c * n) (advance n g))" and
    len: "length start' = length ?start1" and
    vals: "\<forall>j<length ?start1. start' ! j =
              (if Suc j0 \<le> j \<and> j < Suc j0 + c
               then fst (throw_a_coin n (advance ((j - Suc j0) * n) (advance n g)))
               else ?start1 ! j)"
    by blast
  have upt: "[j0..<j0 + Suc c] = j0 # [Suc j0..<Suc j0 + c]"
    by (simp add: upt_conv_Cons)
  define rest where "rest = map int [Suc j0..<Suc j0 + c]"
  have "make_throws_loop n (int j0 # rest) start g
          = make_throws_loop n rest ?start1 (advance n g)"
    using step by (simp add: throw_a_coin_eq)
  moreover have "advance (c * n) (advance n g) = advance (Suc c * n) g"
    by (simp add: advance_advance)
  ultimately have "make_throws_loop n (map int [j0..<j0 + Suc c]) start g
          = (Inr start', advance (Suc c * n) g)"
    unfolding upt using run by (simp add: rest_def)
  moreover have "length start' = length start" using len by simp
  moreover have "\<forall>j<length start. start' ! j =
              (if j0 \<le> j \<and> j < j0 + Suc c then fst (throw_a_coin n (advance ((j - j0) * n) g))
               else start ! j)"
  proof (intro allI impI)
    fix j assume j: "j < length start"
    consider "j = j0" | "Suc j0 \<le> j" "j < Suc j0 + c" | "j < j0" | "Suc j0 + c \<le> j"
      by linarith
    then show "start' ! j =
              (if j0 \<le> j \<and> j < j0 + Suc c then fst (throw_a_coin n (advance ((j - j0) * n) g))
               else start ! j)"
    proof cases
      case 1
      then show ?thesis using vals j by (simp add: advance_0)
    next
      case 2
      then have "(j - Suc j0) * n + n = (j - j0) * n"
        by (metis Suc_diff_le diff_Suc_Suc mult_Suc add.commute)
      with 2 show ?thesis using vals j by (simp add: advance_advance add.commute)
    next
      case 3
      then show ?thesis using vals j by simp
    next
      case 4
      then show ?thesis using vals j by simp
    qed
  qed
  ultimately show ?case by blast
qed

lemma make_throws_spec:
  assumes "0 \<le> M" and "0 \<le> N"
  shows "make_throws M N g =
           (Inr (map (\<lambda>m. np_mean (as_float (replication (nat N) g m))) [0..<nat M]),
            advance (nat M * nat N) g)"
proof -
  let ?start = "np_zeros_int2 (nat M) (nat N)"
  have "0 + nat M \<le> length ?start" and "\<forall>row\<in>set ?start. length row = nat N"
    by (simp_all add: np_zeros_int2_def)
  from make_throws_loop_spec [OF this, of g] obtain start' where
    run: "make_throws_loop (nat N) (map int [0..<nat M]) ?start g
            = (Inr start', advance (nat M * nat N) g)" and
    len: "length start' = nat M" and
    vals: "\<forall>j<nat M. start' ! j = replication (nat N) g j"
    by (auto simp: np_zeros_int2_def replication_def)
  have "np_mean_axis1 start' = map (\<lambda>m. np_mean (as_float (replication (nat N) g m))) [0..<nat M]"
    unfolding np_mean_axis1_def using len vals by (intro nth_equalityI) simp_all
  then show ?thesis
    using assms run by (simp add: make_throws_def)
qed

lemma make_throws_means:
  assumes "1 \<le> M" and "1 \<le> N"
  shows "fst (make_throws M N g)
           = Inr (map (\<lambda>m. Some (arithmetic_mean (map real_of_int (replication (nat N) g m))))
                   [0..<nat M])"
proof -
  have "replication (nat N) g m \<noteq> []" for m
    using assms by (simp add: replication_eq)
  then have "np_mean (as_float (replication (nat N) g m))
               = Some (arithmetic_mean (map real_of_int (replication (nat N) g m)))" for m
    by (rule np_mean_arithmetic)
  moreover have "0 \<le> M" and "0 \<le> N" using assms by simp_all
  ultimately show ?thesis
    by (simp add: make_throws_spec)
qed

text \<open>
  Claim C5. For at least one sample of at least one flip, \<open>make_throws(M, N)\<close> returns,
  without an error, an array of exactly \<open>M\<close> values. Its \<open>m\<close>-th entry is the arithmetic mean
  of the \<open>N\<close> flips of the \<open>m\<close>-th replication, which are the flips of the \<open>m\<close>-th call of
  \<open>throw_a_coin(N)\<close>: they come from the variates \<open>m * N, ..., m * N + N - 1\<close> of the
  generator, so no flip is shared between rows. In particular
  \<open>make_throws(number_of_samples=20, sample_size=10)\<close> returns 20 sample means.
\<close>

theorem make_throws_sample_means:
  "(1 \<le> M \<and> 1 \<le> N \<longrightarrow>
     (\<exists>means. fst (make_throws M N g) = Inr means \<and> length means = nat M \<and>
        (\<forall>m<nat M. means ! m = Some (arithmetic_mean (map real_of_int (replication (nat N) g m))) \<and>
           replication (nat N) g m
             = map (\<lambda>k. if g (m * nat N + k) < 1 / 2 then 1 else 0) [0..<nat N]))) \<and>
   (\<exists>means. fst (make_throws 20 10 g) = Inr means \<and> length means = 20)"
proof (intro conjI impI)
  assume MN: "1 \<le> M \<and> 1 \<le> N"
  then have nonneg: "0 \<le> M" "0 \<le> N" by simp_all
  have "replication (nat N) g m \<noteq> []" for m
    using MN by (simp add: replication_eq)
  then have "np_mean (as_float (replication (nat N) g m))
               = Some (arithmetic_mean (map real_of_int (replication (nat N) g m)))" for m
    by (rule np_mean_arithmetic)
  then show "\<exists>means. fst (make_throws M N g) = Inr means \<and> length means = nat M \<and>
        (\<forall>m<nat M. means ! m = Some (arithmetic_mean (map real_of_int (replication (nat N) g m))) \<and>
           replication (nat N) g m
             = map (\<lambda>k. if g (m * nat N + k) < 1 / 2 then 1 else 0) [0..<nat N])"
    by (simp add: make_throws_spec [OF nonneg] replication_eq)
next
  show "\<exists>means. fst (make_throws 20 10 g) = Inr means \<and> length means = 20"
    by (simp add: make_throws_spec)
qed

text \<open>Twenty samples of ten flips on a concrete generator.\<close>

theorem make_throws_sample_means_witness:
  "(1::int) \<le> 20 \<and> (1::int) \<le> 10 \<and> (0::nat) < nat 20 \<and>
   (\<exists>means. fst (make_throws 20 10 fair_source) = Inr means \<and> length means = 20 \<and>
      means ! 0 = Some (arithmetic_mean (map real_of_int (replication 10 fair_source 0))))"
  using make_throws_sample_means [of 20 10 fair_source] by auto

section \<open>The sample sizes\<close>

lemma throws_for_sizes_spec:
  assumes "0 \<le> M" and "\<forall>i\<in>set sizes. 0 \<le> i"
  shows "\<exists>sm g'. throws_for_sizes M sizes g = (Inr sm, g') \<and> length sm = length sizes \<and>
           (\<forall>k<length sizes.
              fst (make_throws M (sizes ! k) (advance (draws_before M sizes k) g)) = Inr (sm ! k))"
  using assms(2)
proof (induction sizes arbitrary: g)
  case Nil
  then show ?case by simp
next
  case (Cons i rest)
  let ?means = "map (\<lambda>m. np_mean (as_float (replication (nat i) g m))) [0..<nat M]"
  let ?g1 = "advance (nat M * nat i) g"
  from Cons.prems have i: "0 \<le> i" and rest: "\<forall>i\<in>set rest. 0 \<le> i" by simp_all
  have first: "make_throws M i g = (Inr ?means, ?g1)"
    using assms(1) i by (rule make_throws_spec)
  from Cons.IH [OF rest, of ?g1] obtain ms g2 where
    run: "throws_for_sizes M rest ?g1 = (Inr ms, g2)" and
    len: "length ms = length rest" and
    vals: "\<forall>k<length rest.
              fst (make_throws M (rest ! k) (advance (draws_before M rest k) ?g1)) = Inr (ms ! k)"
    by blast
  have "throws_for_sizes M (i # rest) g = (Inr (?means # ms), g2)"
    using first run by simp
  moreover have "length (?means # ms) = length (i # rest)" using len by simp
  moreover have "\<forall>k<length (i # rest).
       fst (make_throws M ((i # rest) ! k) (advance (draws_before M (i # rest) k) g))
         = Inr ((?means # ms) ! k)"
  proof (intro allI impI)
    fix k assume k: "k < length (i # rest)"
    show "fst (make_throws M ((i # rest) ! k) (advance (draws_before M (i # rest) k) g))
         = Inr ((?means # ms) ! k)"
    proof (cases k)
      case 0
      then show ?thesis using first by (simp add: draws_before_def advance_0)
    next
      case (Suc k')
      have "draws_before M (i # rest) (Suc k') = nat M * nat i + draws_before M rest k'"
        by (simp add: draws_before_def sum.lessThan_Suc_shift distrib_left del: sum.lessThan_Suc)
      then show ?thesis
        using Suc k vals by (simp add: advance_advance)
    qed
  qed
  ultimately show ?case by blast
qed

lemma sample_sizes_eq: "sample_sizes = map (\<lambda>k. 1 + 10 * int k) [0..<100]"
  by (simp add: sample_sizes_def np_arange_def mult.commute)

lemma sample_sizes_nth: "k < 100 \<Longrightarrow> sample_sizes ! k = 1 + 10 * int k"
  by (simp add: sample_sizes_eq)

lemma sample_sizes_range: "i \<in> set sample_sizes \<Longrightarrow> 1 \<le> i \<and> i \<le> 991"
  by (auto simp: sample_sizes_eq)

lemma sample_sizes_not_1000: "1000 \<notin> set sample_sizes"
proof
  assume "1000 \<in> set sample_sizes"
  then obtain k where "(1000::int) = 1 + 10 * int k"
    by (auto simp: sample_sizes_eq)
  then show False by presburger
qed

lemma sample_sizes_Max: "Max (set sample_sizes) = 991"
proof (rule Max_eqI)
  show "finite (set sample_sizes)" by simp
  show "y \<le> 991" if "y \<in> set sample_sizes" for y
    using that sample_sizes_range by blast
  have "sample_sizes ! 99 = 991" by (simp add: sample_sizes_nth)
  moreover have "99 < length sample_sizes" by (simp add: sample_sizes_eq)
  ultimately show "991 \<in> set sample_sizes" by (metis nth_mem)
qed

lemma throws_for_sample_sizes:
  assumes "0 \<le> M"
  shows "\<exists>sm. fst (throws_for_sizes M sample_sizes g) = Inr sm \<and> length sm = 100 \<and>
           (\<forall>k<100. fst (make_throws M (sample_sizes ! k)
                             (advance (draws_before M sample_sizes k) g)) = Inr (sm ! k))"
proof -
  have "\<forall>i\<in>set sample_sizes. 0 \<le> i"
    using sample_sizes_range by force
  from throws_for_sizes_spec [OF assms this, of g] show ?thesis
    by (auto simp: sample_sizes_eq)
qed

text \<open>
  Claim C10. \<open>sample_sizes = np.arange(1, 1001, 10)\<close> holds exactly the 100 values
  1, 11, 21, ..., 991. Its largest element is 991 and 1000 is not among them. Both
  comprehensions end without an error and call \<open>make_throws\<close> once for each of these
  sizes, so no replication of size 1000 is drawn. The histogram data \<open>sample_means[99]\<close>,
  which the text presents for the sample size 1000, is the result of
  \<open>make_throws(200, 991)\<close>: 200 means, each over 991 flips.
\<close>

theorem sample_sizes_stop_at_991:
  "sample_sizes = map (\<lambda>k. 1 + 10 * int k) [0..<100] \<and>
   length sample_sizes = 100 \<and>
   Max (set sample_sizes) = 991 \<and>
   1000 \<notin> set sample_sizes \<and>
   getitem sample_sizes 99 = Inr 991 \<and>
   (\<exists>sm. fst (sample_means g) = Inr sm \<and> length sm = 100 \<and>
      (\<forall>k<100. sample_sizes ! k \<noteq> 1000 \<and>
         fst (make_throws 200 (sample_sizes ! k)
                (advance (draws_before 200 sample_sizes k) g)) = Inr (sm ! k)) \<and>
      hist_data sm = Inr (sm ! 99) \<and>
      fst (make_throws 200 991 (advance (draws_before 200 sample_sizes 99) g)) = Inr (sm ! 99) \<and>
      length (sm ! 99) = 200 \<and>
      (\<forall>m<200. sm ! 99 ! m = Some (arithmetic_mean (map real_of_int
                   (replication 991 (advance (draws_before 200 sample_sizes 99) g) m))) \<and>
         length (replication 991 (advance (draws_before 200 sample_sizes 99) g) m) = 991)) \<and>
   (\<exists>sm. fst (sample_means_1000_replicates g) = Inr sm \<and> length sm = 100 \<and>
      (\<forall>k<100. sample_sizes ! k \<noteq> 1000 \<and>
         fst (make_throws 1000 (sample_sizes ! k)
                (advance (draws_before 1000 sample_sizes k) g)) = Inr (sm ! k)))"
proof -
  have len: "length sample_sizes = 100" by (simp add: sample_sizes_eq)
  have ne: "sample_sizes ! k \<noteq> 1000" if "k < 100" for k
    using that len sample_sizes_not_1000 by (metis nth_mem)
  have last: "sample_sizes ! 99 = 991" by (simp add: sample_sizes_nth)
  have get: "getitem sample_sizes 99 = Inr 991"
    by (simp add: getitem_def position_def len last)
  let ?g99 = "advance (draws_before 200 sample_sizes 99) g"
  from throws_for_sample_sizes [of 200 g] obtain sm where
    sm: "fst (sample_means g) = Inr sm" "length sm = 100"
        "\<forall>k<100. fst (make_throws 200 (sample_sizes ! k)
                             (advance (draws_before 200 sample_sizes k) g)) = Inr (sm ! k)"
    by (auto simp: sample_means_def)
  have "(99::nat) < 100" by simp
  with sm(3) have "fst (make_throws 200 (sample_sizes ! 99) ?g99) = Inr (sm ! 99)"
    by blast
  then have at99: "fst (make_throws 200 991 ?g99) = Inr (sm ! 99)"
    by (simp only: last)
  from make_throws_means [of 200 991 ?g99] obtain means where
    means: "fst (make_throws 200 991 ?g99) = Inr means" "length means = 200"
      "\<forall>m<200. means ! m = Some (arithmetic_mean (map real_of_int (replication 991 ?g99 m)))"
    by auto
  have first: "\<exists>sm. fst (sample_means g) = Inr sm \<and> length sm = 100 \<and>
      (\<forall>k<100. sample_sizes ! k \<noteq> 1000 \<and>
         fst (make_throws 200 (sample_sizes ! k)
                (advance (draws_before 200 sample_sizes k) g)) = Inr (sm ! k)) \<and>
      hist_data sm = Inr (sm ! 99) \<and>
      fst (make_throws 200 991 ?g99) = Inr (sm ! 99) \<and>
      length (sm ! 99) = 200 \<and>
      (\<forall>m<200. sm ! 99 ! m = Some (arithmetic_mean (map real_of_int (replication 991 ?g99 m))) \<and>
         length (replication 991 ?g99 m) = 991)"
    using sm ne at99 means by (intro exI [of _ sm]) (simp add: hist_data_def getitem_def position_def replication_eq)
  from throws_for_sample_sizes [of 1000 g] obtain sm' where
    "fst (sample_means_1000_replicates g) = Inr sm'" "length sm' = 100"
        "\<forall>k<100. fst (make_throws 1000 (sample_sizes ! k)
                             (advance (draws_before 1000 sample_sizes k) g)) = Inr (sm' ! k)"
    by (auto simp: sample_means_1000_replicates_def)
  then have second: "\<exists>sm. fst (sample_means_1000_replicates g) = Inr sm \<and> length sm = 100 \<and>
      (\<forall>k<100. sample_sizes ! k \<noteq> 1000 \<and>
         fst (make_throws 1000 (sample_sizes ! k)
                (advance (draws_before 1000 sample_sizes k) g)) = Inr (sm ! k))"
    using ne by blast
  show ?thesis
    using sample_sizes_eq len sample_sizes_Max sample_sizes_not_1000 get first second
    by (intro conjI)
qed


text \<open>The last of the hundred calls on a concrete generator.\<close>

theorem sample_sizes_stop_at_991_witness:
  "(99::nat) < 100 \<and> (0::nat) < 200 \<and> sample_sizes ! 99 \<noteq> 1000 \<and>
   (\<exists>sm. fst (sample_means fair_source) = Inr sm \<and>
      fst (make_throws 200 (sample_sizes ! 99)
             (advance (draws_before 200 sample_sizes 99) fair_source)) = Inr (sm ! 99) \<and>
      length (replication 991 (advance (draws_before 200 sample_sizes 99) fair_source) 0) = 991)"
proof -
  from sample_sizes_stop_at_991 [of fair_source] obtain sm where
    sm: "fst (sample_means fair_source) = Inr sm"
        "\<forall>k<100. sample_sizes ! k \<noteq> 1000 \<and>
           fst (make_throws 200 (sample_sizes ! k)
                  (advance (draws_before 200 sample_sizes k) fair_source)) = Inr (sm ! k)"
        "\<forall>m<200. sm ! 99 ! m = Some (arithmetic_mean (map real_of_int
                   (replication 991 (advance (draws_before 200 sample_sizes 99) fair_source) m))) \<and>
           length (replication 991 (advance (draws_before 200 sample_sizes 99) fair_source) m) = 991"
    by blast
  have k: "(99::nat) < 100" and m: "(0::nat) < 200" by simp_all
  from sm(2) k have "sample_sizes ! 99 \<noteq> 1000 \<and>
           fst (make_throws 200 (sample_sizes ! 99)
                  (advance (draws_before 200 sample_sizes 99) fair_source)) = Inr (sm ! 99)"
    by blast
  moreover from sm(3) m
  have "length (replication 991 (advance (draws_before 200 sample_sizes 99) fair_source) 0) = 991"
    by blast
  ultimately show ?thesis using sm(1) k m by blast
qed

section \<open>Means of flips lie in the unit interval\<close>

lemma throw_a_coin_bits: "x \<in> set (fst (throw_a_coin n g)) \<Longrightarrow> x = 0 \<or> x = 1"
  by (auto simp: throw_a_coin_eq)

lemma replication_bits: "x \<in> set (replication n g m) \<Longrightarrow> x = 0 \<or> x = 1"
  unfolding replication_def by (rule throw_a_coin_bits)

lemma sum_list_unit_bounds:
  "\<forall>r\<in>set rs. 0 \<le> r \<and> r \<le> (1::real) \<Longrightarrow> 0 \<le> sum_list rs \<and> sum_list rs \<le> real (length rs)"
  by (induction rs) auto

lemma np_mean_in_unit:
  assumes "xs \<noteq> []" and "\<forall>v\<in>set xs. in_unit v"
  shows "in_unit (np_mean xs)"
proof -
  define rs where "rs = map the xs"
  have xs: "xs = map Some rs"
    unfolding rs_def using assms(2)
    by (intro nth_equalityI) (auto simp: in_unit_def split: option.splits)
  have "\<forall>r\<in>set rs. 0 \<le> r \<and> r \<le> 1"
    using assms(2) unfolding xs by (auto simp: in_unit_def)
  then have bounds: "0 \<le> sum_list rs" "sum_list rs \<le> real (length rs)"
    using sum_list_unit_bounds by blast+
  have len: "0 < length rs" using assms(1) xs by simp
  have "np_mean xs = Some (sum_list rs / real (length rs))"
    using len unfolding xs
    by (simp add: np_mean_def np_sum_def foldl_fadd_Some true_divide_def)
  then show ?thesis
    using bounds len by (simp add: in_unit_def)
qed

lemma np_mean_bits_in_unit:
  assumes "xs \<noteq> []" and "\<forall>x\<in>set xs. x = 0 \<or> x = 1"
  shows "in_unit (np_mean (as_float xs))"
proof (rule np_mean_in_unit)
  show "as_float xs \<noteq> []" using assms(1) by (simp add: as_float_def)
  show "\<forall>v\<in>set (as_float xs). in_unit v"
    using assms(2) by (auto simp: as_float_def in_unit_def)
qed

lemma make_throws_in_unit:
  assumes "0 \<le> M" and "1 \<le> N"
  shows "\<exists>means. fst (make_throws M N g) = Inr means \<and> length means = nat M \<and>
           (\<forall>v\<in>set means. in_unit v)"
proof -
  have "in_unit (np_mean (as_float (replication (nat N) g m)))" for m
  proof (rule np_mean_bits_in_unit)
    show "replication (nat N) g m \<noteq> []" using assms(2) by (simp add: replication_eq)
    show "\<forall>x\<in>set (replication (nat N) g m). x = 0 \<or> x = 1"
      using replication_bits by blast
  qed
  moreover have "0 \<le> N" using assms(2) by simp
  ultimately show ?thesis
    using assms(1) by (auto simp: make_throws_spec)
qed

lemma throws_for_sample_sizes_in_unit:
  assumes "1 \<le> M"
  shows "\<exists>sm. fst (throws_for_sizes M sample_sizes g) = Inr sm \<and>
           (\<forall>means\<in>set sm. \<forall>v\<in>set means. in_unit v) \<and>
           (\<forall>v\<in>set (mean_of_sample_means sm). in_unit v)"
proof -
  from assms have M: "0 \<le> M" by simp
  from throws_for_sample_sizes [OF M, of g] obtain sm where
    sm: "fst (throws_for_sizes M sample_sizes g) = Inr sm" "length sm = 100"
        "\<forall>k<100. fst (make_throws M (sample_sizes ! k)
                             (advance (draws_before M sample_sizes k) g)) = Inr (sm ! k)"
    by blast
  have each: "sm ! k \<noteq> [] \<and> (\<forall>v\<in>set (sm ! k). in_unit v)" if "k < 100" for k
  proof -
    have "1 \<le> sample_sizes ! k"
      using that by (simp add: sample_sizes_nth)
    from make_throws_in_unit [OF M this, of "advance (draws_before M sample_sizes k) g"]
    obtain means where
      "fst (make_throws M (sample_sizes ! k) (advance (draws_before M sample_sizes k) g)) = Inr means"
      "length means = nat M" "\<forall>v\<in>set means. in_unit v"
      by blast
    moreover have "0 < nat M" using assms by simp
    ultimately show ?thesis using sm(3) that by auto
  qed
  have all: "means \<noteq> [] \<and> (\<forall>v\<in>set means. in_unit v)" if "means \<in> set sm" for means
    using that each sm(2) by (metis in_set_conv_nth)
  then have "\<forall>v\<in>set (mean_of_sample_means sm). in_unit v"
    by (auto simp: mean_of_sample_means_def intro: np_mean_in_unit)
  with sm(1) all show ?thesis by blast
qed

lemma lln_cell_in_unit:
  "\<exists>st. fst (lln_cell g) = Inr st \<and> (\<forall>v\<in>set (running_means st). in_unit v)"
proof -
  obtain flips g' where tc: "throw_a_coin 10000 g = (flips, g')"
    by (cases "throw_a_coin 10000 g")
  have len: "length flips = 10000"
    using throw_a_coin_length [of 10000 g] tc by simp
  have bits: "\<forall>x\<in>set flips. x = 0 \<or> x = 1"
    using throw_a_coin_bits [of _ 10000 g] tc by simp
  have lens: "np_arange 1 10001 1 = map (\<lambda>k. int k + 1) [0..<10000]"
    using np_arange_unit [of 10000] by simp
  have "\<forall>i\<in>set (np_arange 1 10001 1). 1 \<le> i \<and> i \<le> int (length (np_zeros 10000))"
    by (auto simp: lens np_zeros_def)
  from running_means_loop_spec [OF this, of flips] obtain rm where
    run: "running_means_loop flips (np_arange 1 10001 1) (np_zeros 10000) = Inr rm" and
    rlen: "length rm = length (np_zeros 10000)" and
    vals: "\<forall>j<length (np_zeros 10000). rm ! j =
              (if int j + 1 \<in> set (np_arange 1 10001 1)
               then np_mean (as_float (slice_to flips (int j + 1)))
               else np_zeros 10000 ! j)"
    by blast
  have each: "in_unit (rm ! j)" if "j < 10000" for j
  proof -
    have "int j + 1 \<in> set (np_arange 1 10001 1)"
      using that by (auto simp: lens)
    with vals that have "rm ! j = np_mean (as_float (slice_to flips (int j + 1)))"
      by (simp add: np_zeros_def)
    moreover have "slice_to flips (int j + 1) = take (Suc j) flips"
      by (simp add: slice_to_def nat_add_distrib)
    moreover have "take (Suc j) flips \<noteq> []" using len by auto
    moreover have "\<forall>x\<in>set (take (Suc j) flips). x = 0 \<or> x = 1"
      using bits by (meson in_set_takeD)
    ultimately show ?thesis by (simp add: np_mean_bits_in_unit)
  qed
  have "\<forall>v\<in>set rm. in_unit v"
    using each rlen by (auto simp: in_set_conv_nth np_zeros_def)
  moreover have "fst (lln_cell g) =
      Inr \<lparr>random_flips = flips, running_means = rm, sequence_lengths = np_arange 1 10001 1\<rparr>"
    by (simp add: lln_cell_def tc run)
  ultimately show ?thesis by simp
qed

text \<open>
  Claim C9, as amended. Every element of the array returned by \<open>throw_a_coin(n)\<close> is 0 or 1.
  Hence every entry of \<open>running_means\<close>, every entry returned by \<open>make_throws(M, N)\<close> for a
  sample size \<open>N\<close> of at least one, every sample mean of the two comprehensions and every
  mean of these sample means is a finite number of the closed interval from 0 to 1, and
  each of these cells ends without an error.
\<close>

theorem flip_means_in_unit_interval:
  "(\<forall>x\<in>set (fst (throw_a_coin n g)). x = 0 \<or> x = 1) \<and>
   (\<exists>st. fst (lln_cell g) = Inr st \<and> (\<forall>v\<in>set (running_means st). in_unit v)) \<and>
   (0 \<le> M \<and> 1 \<le> N \<longrightarrow>
      (\<exists>means. fst (make_throws M N g) = Inr means \<and> (\<forall>v\<in>set means. in_unit v))) \<and>
   (\<exists>sm. fst (sample_means g) = Inr sm \<and>
      (\<forall>means\<in>set sm. \<forall>v\<in>set means. in_unit v) \<and>
      (\<forall>v\<in>set (mean_of_sample_means sm). in_unit v)) \<and>
   (\<exists>sm. fst (sample_means_1000_replicates g) = Inr sm \<and>
      (\<forall>means\<in>set sm. \<forall>v\<in>set means. in_unit v) \<and>
      (\<forall>v\<in>set (mean_of_sample_means sm). in_unit v))"
proof (intro conjI impI)
  show "\<forall>x\<in>set (fst (throw_a_coin n g)). x = 0 \<or> x = 1"
    using throw_a_coin_bits by blast
  show "\<exists>st. fst (lln_cell g) = Inr st \<and> (\<forall>v\<in>set (running_means st). in_unit v)"
    by (rule lln_cell_in_unit)
  show "\<exists>means. fst (make_throws M N g) = Inr means \<and> (\<forall>v\<in>set means. in_unit v)"
    if "0 \<le> M \<and> 1 \<le> N"
    using that make_throws_in_unit [of M N g] by blast
  show "\<exists>sm. fst (sample_means g) = Inr sm \<and>
      (\<forall>means\<in>set sm. \<forall>v\<in>set means. in_unit v) \<and>
      (\<forall>v\<in>set (mean_of_sample_means sm). in_unit v)"
    unfolding sample_means_def by (rule throws_for_sample_sizes_in_unit) simp
  show "\<exists>sm. fst (sample_means_1000_replicates g) = Inr sm \<and>
      (\<forall>means\<in>set sm. \<forall>v\<in>set means. in_unit v) \<and>
      (\<forall>v\<in>set (mean_of_sample_means sm). in_unit v)"
    unfolding sample_means_1000_replicates_def by (rule throws_for_sample_sizes_in_unit) simp
qed

text \<open>
  Claim C9 as it was stated speaks of every entry returned by \<open>make_throws(M, N)\<close>. With
  the sample size 0 each row is empty and its mean is \<open>nan\<close>, which is in no interval.
\<close>

theorem empty_sample_mean_counterexample:
  "fst (make_throws 1 0 fair_source) = Inr [None] \<and> \<not> in_unit None"
  by (simp add: make_throws_spec replication_eq np_mean_as_float in_unit_def)

text \<open>One sample of one flip on a concrete generator.\<close>

theorem flip_means_in_unit_interval_witness:
  "(1::int) \<in> set (fst (throw_a_coin 1 fair_source)) \<and>
   (0::int) \<le> 1 \<and> (1::int) \<le> 1 \<and>
   (\<exists>means. fst (make_throws 1 1 fair_source) = Inr means \<and> in_unit (means ! 0))"
proof -
  have flip: "(1::int) \<in> set (fst (throw_a_coin 1 fair_source))"
    by (simp add: throw_a_coin_eq fair_source_def)
  from flip_means_in_unit_interval [of 1 fair_source 1 1] obtain means where
    means: "fst (make_throws 1 1 fair_source) = Inr means" "\<forall>v\<in>set means. in_unit v"
    by auto
  have "length means = 1"
    using means(1) by (auto simp: make_throws_spec)
  then have "means ! 0 \<in> set means" by simp
  with means flip show ?thesis by auto
qed

section \<open>The Monte Carlo estimates\<close>

lemma np_random_uniform_eq:
  "np_random_uniform low high n g =
     (map (\<lambda>k. Some (low + (high - low) * g k)) [0..<n], advance n g)"
  by (simp add: np_random_uniform_def draw_def advance_def)

lemma mc_loop_spec:
  assumes "j0 + c \<le> length I0"
  shows "\<exists>I1. mc_loop a b (map int [j0..<j0 + c]) I0 g = (Inr I1, advance (\<Sum>{j0..<j0 + c}) g) \<and>
           length I1 = length I0 \<and>
           (\<forall>j<length I0. I1 ! j =
              (if j0 \<le> j \<and> j < j0 + c then mc_entry a b j (advance (\<Sum>{j0..<j}) g)
               else I0 ! j))"
  using assms
proof (induction c arbitrary: j0 I0 g)
  case 0
  then show ?case by (auto simp: advance_0)
next
  case (Suc c)
  let ?v = "mc_entry a b j0 g"
  let ?I = "I0[j0 := ?v]"
  have j0: "j0 < length I0" using Suc.prems by simp
  then have step: "setitem I0 (int j0) ?v = Inr ?I"
    by (simp add: setitem_def position_def)
  have "Suc j0 + c \<le> length ?I" using Suc.prems by simp
  from Suc.IH [OF this, of "advance j0 g"] obtain I1 where
    run: "mc_loop a b (map int [Suc j0..<Suc j0 + c]) ?I (advance j0 g)
            = (Inr I1, advance (\<Sum>{Suc j0..<Suc j0 + c}) (advance j0 g))" and
    len: "length I1 = length ?I" and
    vals: "\<forall>j<length ?I. I1 ! j =
              (if Suc j0 \<le> j \<and> j < Suc j0 + c
               then mc_entry a b j (advance (\<Sum>{Suc j0..<j}) (advance j0 g))
               else ?I ! j)"
    by blast
  have split: "\<Sum>{j0..<j} = j0 + \<Sum>{Suc j0..<j}" if "j0 < j" for j
    using that by (simp add: sum.atLeast_Suc_lessThan)
  have upt: "[j0..<j0 + Suc c] = j0 # [Suc j0..<Suc j0 + c]"
    by (simp add: upt_conv_Cons)
  define rest where "rest = map int [Suc j0..<Suc j0 + c]"
  have "mc_loop a b (int j0 # rest) I0 g = mc_loop a b rest ?I (advance j0 g)"
    using step by (simp add: np_random_uniform_eq mc_entry_def)
  moreover have "advance (\<Sum>{Suc j0..<Suc j0 + c}) (advance j0 g) = advance (\<Sum>{j0..<j0 + Suc c}) g"
  proof -
    have e: "Suc j0 + c = j0 + Suc c" by simp
    have "j0 < j0 + Suc c" by simp
    from split [OF this] have "\<Sum>{j0..<j0 + Suc c} = j0 + \<Sum>{Suc j0..<j0 + Suc c}" .
    then show ?thesis by (simp only: advance_advance e)
  qed
  ultimately have "mc_loop a b (map int [j0..<j0 + Suc c]) I0 g
          = (Inr I1, advance (\<Sum>{j0..<j0 + Suc c}) g)"
    unfolding upt using run by (simp add: rest_def)
  moreover have "length I1 = length I0" using len by simp
  moreover have "\<forall>j<length I0. I1 ! j =
              (if j0 \<le> j \<and> j < j0 + Suc c then mc_entry a b j (advance (\<Sum>{j0..<j}) g)
               else I0 ! j)"
  proof (intro allI impI)
    fix j assume j: "j < length I0"
    consider "j = j0" | "Suc j0 \<le> j" "j < Suc j0 + c" | "j < j0" | "Suc j0 + c \<le> j"
      by linarith
    then show "I1 ! j =
              (if j0 \<le> j \<and> j < j0 + Suc c then mc_entry a b j (advance (\<Sum>{j0..<j}) g)
               else I0 ! j)"
    proof cases
      case 1
      then show ?thesis using vals j by (simp add: advance_0)
    next
      case 2
      then have "advance (\<Sum>{Suc j0..<j}) (advance j0 g) = advance (\<Sum>{j0..<j}) g"
        using split [of j] by (simp add: advance_advance)
      with 2 show ?thesis using vals j by simp
    next
      case 3
      then show ?thesis using vals j by simp
    next
      case 4
      then show ?thesis using vals j by simp
    qed
  qed
  ultimately show ?case by blast
qed

lemma sum_upto_closed: "\<Sum>{0..<n::nat} = n * (n - 1) div 2"
proof -
  have "2 * \<Sum>{0..<n} = n * (n - 1)"
  proof (induction n)
    case 0
    then show ?case by simp
  next
    case (Suc n)
    then show ?case by (cases n) (simp_all add: algebra_simps)
  qed
  then show ?thesis by (metis nonzero_mult_div_cancel_left zero_neq_numeral)
qed

lemma np_sum_Some: "np_sum (map Some rs) = Some (sum_list rs)"
  by (simp add: np_sum_def foldl_fadd_Some)

lemma mc_entry_eq:
  "mc_entry a b n g =
     (if n = 0 then None
      else Some (real_of_int (b - a) *
             sum_list (map (\<lambda>k. f (real_of_int a + (real_of_int b - real_of_int a) * g k)) [0..<n])
             / real n))"
proof -
  have "map (map_option f) (fst (np_random_uniform (real_of_int a) (real_of_int b) n g))
      = map Some (map (\<lambda>k. f (real_of_int a + (real_of_int b - real_of_int a) * g k)) [0..<n])"
    by (simp add: np_random_uniform_eq)
  then have "np_sum (map (map_option f) (fst (np_random_uniform (real_of_int a) (real_of_int b) n g)))
      = Some (sum_list (map (\<lambda>k. f (real_of_int a + (real_of_int b - real_of_int a) * g k)) [0..<n]))"
    by (simp only: np_sum_Some)
  then show ?thesis
    by (simp add: mc_entry_def fscale_def true_divide_def)
qed

lemma mc_cell_spec:
  "\<exists>v. fst (mc_cell g) = Inr v \<and> length (Imc v) = 1000 \<and>
       Na v = np_linspace 0 1000 1000 \<and> exactval v = intf 3 - intf 2 \<and>
       (\<forall>n<1000. Imc v ! n = mc_entry 2 3 n (advance (n * (n - 1) div 2) g))"
proof -
  have ar: "np_arange 0 1000 1 = map int [0..<0 + 1000]"
    by (simp add: np_arange_def)
  have "0 + 1000 \<le> length (np_zeros 1000)" by (simp add: np_zeros_def)
  from mc_loop_spec [OF this, of 2 3 g] obtain I1 where
    run: "mc_loop 2 3 (map int [0..<0 + 1000]) (np_zeros 1000) g
            = (Inr I1, advance (\<Sum>{0..<0 + 1000}) g)" and
    len: "length I1 = length (np_zeros 1000)" and
    vals: "\<forall>j<length (np_zeros 1000). I1 ! j =
              (if 0 \<le> j \<and> j < 0 + 1000 then mc_entry 2 3 j (advance (\<Sum>{0..<j}) g)
               else np_zeros 1000 ! j)"
    by blast
  let ?v = "\<lparr>Imc = I1, Na = np_linspace 0 1000 1000, exactval = intf 3 - intf 2\<rparr>"
  have "fst (mc_cell g) = Inr ?v"
    unfolding mc_cell_def ar using run by simp
  moreover have "\<forall>n<1000. I1 ! n = mc_entry 2 3 n (advance (n * (n - 1) div 2) g)"
    using vals by (simp add: np_zeros_def sum_upto_closed)
  ultimately show ?thesis
    using len by (intro exI [of _ ?v]) (simp add: np_zeros_def)
qed

lemma intf_derivative: "(intf has_real_derivative f x) (at x)"
  unfolding intf_def f_def
  by (auto intro!: derivative_eq_intros simp: power2_eq_square algebra_simps)


lemma mc_entry_average:
  assumes "0 < n"
  shows "mc_entry 2 3 n (advance (n * (n - 1) div 2) g)
           = Some ((3 - 2) * arithmetic_mean (map f (mc_sample g n)))"
proof -
  let ?g = "advance (n * (n - 1) div 2) g"
  have sample: "mc_sample g n = map (\<lambda>k. 2 + (3 - 2) * ?g k) [0..<n]"
    by (simp add: mc_sample_def draw_def)
  have "sum_list (map (\<lambda>k. f (2 + (3 - 2) * ?g k)) [0..<n]) = (\<Sum>k<n. f (2 + (3 - 2) * ?g k))"
    by (simp add: interv_sum_list_conv_sum_set_nat atLeast0LessThan)
  also have "\<dots> = (\<Sum>k<length (map f (mc_sample g n)). map f (mc_sample g n) ! k)"
    unfolding sample by (rule sum.cong) simp_all
  finally have "sum_list (map (\<lambda>k. f (2 + (3 - 2) * ?g k)) [0..<n])
                  = arithmetic_mean (map f (mc_sample g n)) * real n"
    using assms by (simp add: arithmetic_mean_def sample)
  then show ?thesis
    using assms by (simp add: mc_entry_eq)
qed

text \<open>
  Claim C2. The Monte Carlo cell ends without an error. For every \<open>N\<close> from 1 to 999 the
  estimate \<open>Imc[N]\<close> is \<open>b - a\<close> times the arithmetic mean of the \<open>N\<close> function values
  \<open>f(X\<^sub>1), ..., f(X\<^sub>N)\<close> of the \<open>N\<close> random points drawn in that iteration, with
  \<open>f(x) = x\<^sup>2 + 4 x sin x\<close>, \<open>a = 2\<close> and \<open>b = 3\<close>. The exact value it is compared with
  is \<open>intf(3) - intf(2)\<close>, where \<open>intf(x) = x\<^sup>3/3 + 4 sin x - 4 x cos x\<close> is an
  antiderivative of \<open>f\<close>.
\<close>

theorem mc_estimate_scaled_average:
  "(\<exists>v. fst (mc_cell g) = Inr v \<and> exactval v = intf 3 - intf 2 \<and>
      (\<forall>N. 1 \<le> N \<and> N < 1000 \<longrightarrow>
         length (mc_sample g N) = N \<and>
         Imc v ! N = Some ((3 - 2) * arithmetic_mean (map f (mc_sample g N))))) \<and>
   (\<forall>x. (intf has_real_derivative f x) (at x)) \<and>
   (\<forall>x. f x = x\<^sup>2 + 4 * x * sin x) \<and>
   (\<forall>x. intf x = x ^ 3 / 3 + 4 * sin x - 4 * x * cos x)"
proof -
  from mc_cell_spec [of g] obtain v where
    v: "fst (mc_cell g) = Inr v" "exactval v = intf 3 - intf 2"
       "\<forall>n<1000. Imc v ! n = mc_entry 2 3 n (advance (n * (n - 1) div 2) g)"
    by blast
  have "length (mc_sample g N) = N \<and>
        Imc v ! N = Some ((3 - 2) * arithmetic_mean (map f (mc_sample g N)))"
    if "1 \<le> N \<and> N < 1000" for N
    using that v(3) mc_entry_average [of N g] by (simp add: mc_sample_def draw_def)
  with v(1,2) have "\<exists>v. fst (mc_cell g) = Inr v \<and> exactval v = intf 3 - intf 2 \<and>
      (\<forall>N. 1 \<le> N \<and> N < 1000 \<longrightarrow>
         length (mc_sample g N) = N \<and>
         Imc v ! N = Some ((3 - 2) * arithmetic_mean (map f (mc_sample g N))))"
    by blast
  then show ?thesis
    using intf_derivative by (simp add: f_def intf_def)
qed

text \<open>The estimate from one point on a concrete generator: the point is 9/4.\<close>

theorem mc_estimate_scaled_average_witness:
  "(1::nat) \<le> 1 \<and> (1::nat) < 1000 \<and> mc_sample fair_source 1 = [9 / 4] \<and>
   (\<exists>v. fst (mc_cell fair_source) = Inr v \<and> Imc v ! 1 = Some (f (9 / 4)))"
proof -
  have sample: "mc_sample fair_source 1 = [9 / 4]"
    by (simp add: mc_sample_def draw_def advance_def fair_source_def)
  from mc_estimate_scaled_average [of fair_source] obtain v where
    v: "fst (mc_cell fair_source) = Inr v"
       "\<forall>N. 1 \<le> N \<and> N < 1000 \<longrightarrow>
          length (mc_sample fair_source N) = N \<and>
          Imc v ! N = Some ((3 - 2) * arithmetic_mean (map f (mc_sample fair_source N)))"
    by blast
  have "(1::nat) \<le> 1 \<and> (1::nat) < 1000" by simp
  with v(2) have "Imc v ! 1 = Some ((3 - 2) * arithmetic_mean (map f (mc_sample fair_source 1)))"
    by blast
  then have "Imc v ! 1 = Some (f (9 / 4))"
    unfolding sample by (simp add: arithmetic_mean_def)
  with v(1) sample show ?thesis by auto
qed

lemma error_curve_ordinates:
  assumes "length (Imc v) = 1000"
  shows "length (snd (error_curve v)) = 990"
    and "k < 990 \<Longrightarrow> snd (error_curve v) ! k
           = map_option (\<lambda>y. sqrt ((y - exactval v)\<^sup>2)) (Imc v ! (k + 10))"
  using assms by (simp_all add: error_curve_def slice_from_def add.commute)

text \<open>
  Claim C8. The first iteration of the Monte Carlo loop, \<open>N = 0\<close>, sums an empty sample
  and divides the sum \<open>0.0\<close> by zero; nothing guards the division, and \<open>Imc[0]\<close> is not a
  number. For every \<open>N\<close> from 1 to 999 the count is not zero and \<open>Imc[N]\<close> is a finite
  number. The plotted slice \<open>Imc[10:]\<close> holds the entries 10 to 999, all finite, and the
  two curves of the plot are the same whatever stands at index 0.
\<close>

theorem mc_first_entry_not_plotted:
  "np_sum (map (map_option f) (fst (np_random_uniform 2 3 0 g))) = Some 0 \<and>
   true_divide (fscale (3 - 2) (Some 0)) 0 = None \<and>
   (\<exists>v. fst (mc_cell g) = Inr v \<and>
      getitem (Imc v) 0 = Inr None \<and>
      (\<forall>N. 1 \<le> N \<and> N < 1000 \<longrightarrow> (\<exists>y. Imc v ! N = Some y)) \<and>
      (\<forall>y. error_curve (v\<lparr>Imc := (Imc v)[0 := y]\<rparr>) = error_curve v \<and>
           reference_curve (v\<lparr>Imc := (Imc v)[0 := y]\<rparr>) = reference_curve v) \<and>
      length (snd (error_curve v)) = 990 \<and>
      (\<forall>k<990. snd (error_curve v) ! k
           = map_option (\<lambda>y. sqrt ((y - exactval v)\<^sup>2)) (Imc v ! (k + 10))) \<and>
      (\<forall>p\<in>set (snd (error_curve v)). p \<noteq> None))"
proof -
  from mc_cell_spec [of g] obtain v where
    v: "fst (mc_cell g) = Inr v" "length (Imc v) = 1000"
       "\<forall>n<1000. Imc v ! n = mc_entry 2 3 n (advance (n * (n - 1) div 2) g)"
    by blast
  have zero: "getitem (Imc v) 0 = Inr None"
    using v(2,3) by (simp add: getitem_def position_def mc_entry_eq)
  have finite: "\<exists>y. Imc v ! N = Some y" if "1 \<le> N \<and> N < 1000" for N
    using that v(3) by (simp add: mc_entry_eq)
  have same: "error_curve (v\<lparr>Imc := (Imc v)[0 := y]\<rparr>) = error_curve v" for y
    by (simp add: error_curve_def slice_from_def)
  have same_ref: "reference_curve (v\<lparr>Imc := (Imc v)[0 := y]\<rparr>) = reference_curve v" for y
    by (simp add: reference_curve_def)
  note ord = error_curve_ordinates [OF v(2)]
  have "p \<noteq> None" if "p \<in> set (snd (error_curve v))" for p
  proof -
    from that ord(1) obtain k where k: "k < 990" "p = snd (error_curve v) ! k"
      by (metis in_set_conv_nth)
    then have "1 \<le> k + 10 \<and> k + 10 < 1000" by simp
    from finite [OF this] obtain y where "Imc v ! (k + 10) = Some y" ..
    with k ord(2) show ?thesis by simp
  qed
  with v(1) zero finite same same_ref ord show ?thesis
    by (intro conjI exI [of _ v])
       (simp_all add: np_random_uniform_eq np_sum_def true_divide_def fscale_def)
qed

text \<open>The first plotted ordinate on a concrete generator: it comes from \<open>Imc[10]\<close>.\<close>

theorem mc_first_entry_not_plotted_witness:
  "(1::nat) \<le> 10 \<and> (10::nat) < 1000 \<and> (0::nat) < 990 \<and>
   (\<exists>v y. fst (mc_cell fair_source) = Inr v \<and> Imc v ! 10 = Some y \<and>
      snd (error_curve v) ! 0 = Some (sqrt ((y - exactval v)\<^sup>2)) \<and>
      snd (error_curve v) ! 0 \<in> set (snd (error_curve v)))"
proof -
  from mc_first_entry_not_plotted [of fair_source] obtain v where
    v: "fst (mc_cell fair_source) = Inr v"
       "\<forall>N. 1 \<le> N \<and> N < 1000 \<longrightarrow> (\<exists>y. Imc v ! N = Some y)"
       "length (snd (error_curve v)) = 990"
       "\<forall>k<990. snd (error_curve v) ! k
           = map_option (\<lambda>y. sqrt ((y - exactval v)\<^sup>2)) (Imc v ! (k + 10))"
    by blast
  have "(1::nat) \<le> 10 \<and> (10::nat) < 1000" by simp
  with v(2) obtain y where y: "Imc v ! 10 = Some y" by blast
  have k: "(0::nat) < 990" by simp
  with v(4) have "snd (error_curve v) ! 0
           = map_option (\<lambda>y. sqrt ((y - exactval v)\<^sup>2)) (Imc v ! (0 + 10))"
    by blast
  with y have "snd (error_curve v) ! 0 = Some (sqrt ((y - exactval v)\<^sup>2))" by simp
  moreover have "snd (error_curve v) ! 0 \<in> set (snd (error_curve v))"
    using v(3) by simp
  ultimately show ?thesis using v(1) y by auto
qed

section \<open>The errors of the second notebook\<close>

lemmas run_simps = outcomes_def unbound_throughout_def numpy_notebook_def read_csv_cell_def
  drop_cell_def lookup_def call_def builtins_def quoted_def

text \<open>
  Claim C1. The cells of the second notebook are run in order, with any library in which
  \<open>head\<close> is not a parameter of \<open>read_csv\<close>. The cell that loads the CSV file raises the
  TypeError \<open>read_csv() got an unexpected keyword argument 'head'\<close>. The name \<open>test_data\<close>
  is therefore bound after no cell of the run, and the later cell that evaluates
  \<open>test_data.drop(0, axis=1)\<close> raises the NameError \<open>name 'test_data' is not defined\<close>.
  No cell of either notebook contains a handler, and both errors leave their cells.
\<close>

theorem csv_cells_raise_unhandled:
  assumes "''head'' \<notin> set ps"
  shows "numpy_notebook ! 26 = read_csv_cell \<and>
         outcomes ps numpy_notebook ! 26
           = Some (TypeError (''read_csv() got an unexpected keyword argument '' @ quoted ''head'')) \<and>
         unbound_throughout ''test_data'' ps numpy_notebook \<and>
         numpy_notebook ! 29 = drop_cell \<and>
         outcomes ps numpy_notebook ! 29
           = Some (NameError (''name '' @ quoted ''test_data'' @ '' is not defined'')) \<and>
         list_all (list_all (\<lambda>s. \<not> has_handler s)) (numpy_notebook @ gaussians_notebook)"
proof (intro conjI)
  show "numpy_notebook ! 26 = read_csv_cell"
    by (simp add: numpy_notebook_def)
  show "numpy_notebook ! 29 = drop_cell"
    by (simp add: numpy_notebook_def)
  show "outcomes ps numpy_notebook ! 26
          = Some (TypeError (''read_csv() got an unexpected keyword argument '' @ quoted ''head''))"
    using assms by (simp add: run_simps)
  show "outcomes ps numpy_notebook ! 29
          = Some (NameError (''name '' @ quoted ''test_data'' @ '' is not defined''))"
    using assms by (simp add: run_simps)
  show "unbound_throughout ''test_data'' ps numpy_notebook"
    using assms by (simp add: run_simps)
  show "list_all (list_all (\<lambda>s. \<not> has_handler s)) (numpy_notebook @ gaussians_notebook)"
    by (simp add: numpy_notebook_def gaussians_notebook_def read_csv_cell_def drop_cell_def)
qed

text \<open>The run with the parameters that \<open>read_csv\<close> has in pandas 2.\<close>

theorem csv_cells_raise_unhandled_witness:
  "''head'' \<notin> set pandas_read_csv_params \<and>
   outcomes pandas_read_csv_params numpy_notebook ! 26
     = Some (TypeError (''read_csv() got an unexpected keyword argument '' @ quoted ''head'')) \<and>
   outcomes pandas_read_csv_params numpy_notebook ! 29
     = Some (NameError (''name '' @ quoted ''test_data'' @ '' is not defined''))"
proof -
  have h: "''head'' \<notin> set pandas_read_csv_params"
    by (simp add: pandas_read_csv_params_def)
  from csv_cells_raise_unhandled [OF h] h show ?thesis by blast
qed

end
